theory Spec2Isabelle
  imports Complex_Main "HOL-Library.Multiset"
begin

section \<open>Data model\<close>

text \<open>
  A JavaScript \<open>number\<close> is modelled by an exact rational: comparisons, subtraction and
  array indices are exact in the model; IEEE rounding, infinities and NaN are outside it.
\<close>

type_synonym number = rat

text \<open>The runtime \<open>Layer\<close> interface of the editor page and of the task manager.\<close>

record Layer =
  l_id :: string
  l_name :: string
  l_src :: string
  l_file_path :: string
  l_width :: number
  l_height :: number
  isVisible :: bool
  zIndex :: number

section \<open>Array helpers\<close>

text \<open>
  \<open>Array.prototype.findIndex\<close>: the first index whose element satisfies the predicate;
  the result \<open>-1\<close> of the source is \<open>None\<close>.
\<close>

fun findIndex :: "('a \<Rightarrow> bool) \<Rightarrow> 'a list \<Rightarrow> nat option" where
  "findIndex P [] = None"
| "findIndex P (x # xs) = (if P x then Some 0 else map_option Suc (findIndex P xs))"

text \<open>\<open>arr.splice(i, 1)\<close>: the array left behind when the element at \<open>i\<close> is removed.\<close>

definition splice_remove :: "nat \<Rightarrow> 'a list \<Rightarrow> 'a list" where
  "splice_remove i xs = take i xs @ drop (Suc i) xs"

text \<open>
  \<open>arr.splice(i, 0, x)\<close>: insertion before index \<open>i\<close>; a start index beyond the end is
  clamped to the length, which \<open>take\<close> and \<open>drop\<close> do as well.
\<close>

definition splice_insert :: "nat \<Rightarrow> 'a \<Rightarrow> 'a list \<Rightarrow> 'a list" where
  "splice_insert i x xs = take i xs @ x # drop i xs"

section \<open>String helpers\<close>

text \<open>
  A string is the sequence of the UTF-8 bytes of the JavaScript string. An optional string
  is truthy when it is present and not empty; \<open>or_default s d\<close> is \<open>s || d\<close>.
\<close>

fun nonempty :: "string option \<Rightarrow> bool" where
  "nonempty None = False"
| "nonempty (Some s) = (s \<noteq> [])"

fun or_default :: "string option \<Rightarrow> string \<Rightarrow> string" where
  "or_default None d = d"
| "or_default (Some s) d = (if s \<noteq> [] then s else d)"

text \<open>\<open>s.split("/").pop()\<close>: what follows the last slash, the whole string without one.\<close>

definition last_segment :: "string \<Rightarrow> string" where
  "last_segment s = rev (takeWhile (\<lambda>c. c \<noteq> CHR ''/'') (rev s))"

text \<open>\<open>s.startsWith(t)\<close>, \<open>s.endsWith(t)\<close> and \<open>s.includes(t)\<close>.\<close>

fun starts_with :: "string \<Rightarrow> string \<Rightarrow> bool" where
  "starts_with s [] = True"
| "starts_with [] (t # ts) = False"
| "starts_with (c # cs) (t # ts) = (c = t \<and> starts_with cs ts)"

definition ends_with :: "string \<Rightarrow> string \<Rightarrow> bool" where
  "ends_with s t = starts_with (rev s) (rev t)"

fun string_includes :: "string \<Rightarrow> string \<Rightarrow> bool" where
  "string_includes [] t = (t = [])"
| "string_includes (c # cs) t = (if starts_with (c # cs) t then True else string_includes cs t)"

text \<open>
  \<open>s.replace(re, "")\<close> for the pattern of the loader, which matches a final \<open>.png\<close>,
  \<open>.jpg\<close> or \<open>.jpeg\<close> and ignores case: the extension is removed in any mix of upper
  and lower case. Only the 26 letters of ASCII have another case for this pattern.
\<close>

definition ascii_lower :: "char \<Rightarrow> char" where
  "ascii_lower c =
     (if 65 \<le> (of_char c :: nat) \<and> (of_char c :: nat) \<le> 90
      then char_of ((of_char c :: nat) + 32) else c)"

definition strip_image_extension :: "string \<Rightarrow> string" where
  "strip_image_extension s =
     (if ends_with (map ascii_lower s) ''.png'' then take (length s - 4) s
      else if ends_with (map ascii_lower s) ''.jpg'' then take (length s - 4) s
      else if ends_with (map ascii_lower s) ''.jpeg'' then take (length s - 5) s
      else s)"

text \<open>
  \<open>btoa\<close> accepts a string whose code units are all at most \<open>0xFF\<close> and throws an
  \<open>InvalidCharacterError\<close> for any other. In UTF-8 every code point above \<open>U+00FF\<close>
  (and every surrogate) starts with a byte of \<open>0xC4\<close> or more, and no code point up
  to \<open>U+00FF\<close> has such a byte.
\<close>

definition latin1 :: "string \<Rightarrow> bool" where
  "latin1 s = list_all (\<lambda>c. (of_char c :: nat) < 196) s"

section \<open>Editor page: layer operations\<close>

text \<open>
  The functional updates passed to \<open>setLayers\<close> in the page component, as functions from
  the previous layer array to the next one.
\<close>

text \<open>\<open>newLayers.map((layer, index) => ({ ...layer, zIndex: index }))\<close>\<close>

definition renumber :: "Layer list \<Rightarrow> Layer list" where
  "renumber ls = map (\<lambda>(i, l). l\<lparr>zIndex := of_nat i\<rparr>) (enumerate 0 ls)"

definition handleReorderLayers :: "string \<Rightarrow> string \<Rightarrow> Layer list \<Rightarrow> Layer list" where
  "handleReorderLayers draggedId targetId prev =
     (case findIndex (\<lambda>layer. l_id layer = draggedId) prev of
        None \<Rightarrow> prev
      | Some draggedIndex \<Rightarrow>
          (case findIndex (\<lambda>layer. l_id layer = targetId) prev of
             None \<Rightarrow> prev
           | Some targetIndex \<Rightarrow>
               (let draggedLayer = prev ! draggedIndex;
                    newLayers = splice_remove draggedIndex prev;
                    newLayers = splice_insert targetIndex draggedLayer newLayers
                in renumber newLayers)))"








text \<open>
  The preset objects that the page holds are untyped where they are written to a file
  (\<open>any[]\<close>): they carry the camel-case fields of the runtime preset, the snake-case
  fields of the file, or both. A \<open>Date\<close> is its ISO string here.
\<close>

record preset_any =
  p_id :: string
  p_name :: string
  p_layerStates :: "(string \<rightharpoonup> bool) option"
  p_layer_states :: "(string \<rightharpoonup> bool) option"
  p_createdAt :: "string option"
  p_created_at :: "string option"

text \<open>
  The state of the editor page that the operations below read: the layer array, the
  selection, the presets and the canvas size (\<open>useState\<close> hooks of the component).
\<close>

record editor =
  layers :: "Layer list"
  selectedLayerId :: "string option"
  ed_presets :: "preset_any list"
  ed_canvasWidth :: number
  ed_canvasHeight :: number

text \<open>
  \<open>handleDeleteLayer\<close> reads the layer array and the selection of the current render and
  updates both; the guard returns before any update.
\<close>

definition handleDeleteLayer :: "string \<Rightarrow> editor \<Rightarrow> editor" where
  "handleDeleteLayer i st =
     (if length (layers st) \<le> 1 then st
      else st\<lparr>layers := filter (\<lambda>layer. l_id layer \<noteq> i) (layers st),
               selectedLayerId :=
                 (if selectedLayerId st = Some i
                  then (case filter (\<lambda>l. l_id l \<noteq> i) (layers st) of
                          [] \<Rightarrow> None
                        | l # _ \<Rightarrow> Some (l_id l))
                  else selectedLayerId st)\<rparr>)"

text \<open>A layer stack of three layers used by the examples below.\<close>

definition ex_layers :: "Layer list" where
  "ex_layers =
     [\<lparr>l_id = ''a'', l_name = ''A'', l_src = ''/a.png'', l_file_path = ''./assets/a.png'',
       l_width = 100, l_height = 50, isVisible = True, zIndex = 0\<rparr>,
      \<lparr>l_id = ''b'', l_name = ''B'', l_src = ''/b.png'', l_file_path = ''./assets/b.png'',
       l_width = 100, l_height = 50, isVisible = False, zIndex = 1\<rparr>,
      \<lparr>l_id = ''c'', l_name = ''C'', l_src = ''/c.png'', l_file_path = ''./assets/c.png'',
       l_width = 100, l_height = 50, isVisible = True, zIndex = 2\<rparr>]"

text \<open>Two layers that carry the same id.\<close>

definition ex_duplicate_layers :: "Layer list" where
  "ex_duplicate_layers =
     [\<lparr>l_id = ''a'', l_name = ''A'', l_src = ''/a.png'', l_file_path = ''./assets/a.png'',
       l_width = 100, l_height = 50, isVisible = True, zIndex = 0\<rparr>,
      \<lparr>l_id = ''a'', l_name = ''A copy'', l_src = ''/a2.png'',
       l_file_path = ''./assets/a2.png'', l_width = 100, l_height = 50, isVisible = True,
       zIndex = 1\<rparr>]"



definition ex_editor :: "Layer list \<Rightarrow> string option \<Rightarrow> editor" where
  "ex_editor ls sel =
     \<lparr>layers = ls, selectedLayerId = sel, ed_presets = [],
      ed_canvasWidth = 1920, ed_canvasHeight = 1080\<rparr>"


section \<open>Project schema\<close>

text \<open>
  The on-disk \<open>ProjectLayer\<close>. The converter below tests \<open>typeof is_visible\<close> and
  \<open>typeof z_index\<close>, so these two fields are optional here: \<open>None\<close> is a field that
  is absent from the file or not of the declared type. The string fields and the two
  dimensions are tested by value (\<open>||\<close>, \<open>> 0\<close>) only; an absent string takes the
  same branch as the empty string and an absent dimension the same branch as \<open>0\<close>,
  which is how an absent one is written here.
\<close>

record ProjectLayer =
  pl_id :: string
  pl_name :: string
  pl_file_path :: string
  pl_width :: number
  pl_height :: number
  is_visible :: "bool option"
  z_index :: "number option"

text \<open>The on-disk \<open>LayerPreset\<close>; \<open>layer_states\<close> is whatever \<open>exportProject\<close> found.\<close>

record LayerPreset =
  lp_id :: string
  lp_name :: string
  layer_states :: "(string \<rightharpoonup> bool) option"
  created_at :: string

record ProjectCanvas =
  pc_width :: number
  pc_height :: number

record ProjectFile =
  pf_version :: string
  pf_canvas :: ProjectCanvas
  pf_layers :: "ProjectLayer list"
  pf_presets :: "LayerPreset list"

section \<open>Sorting\<close>

text \<open>
  \<open>Array.prototype.sort(compareFn)\<close> is a stable sort: an element goes before the first
  element of the sorted rest that it does not compare greater than. For a comparator that
  is not a consistent order the language leaves the result to the implementation; the
  properties below are about comparators of the form \<open>key a - key b\<close>.
\<close>

fun js_insert :: "('a \<Rightarrow> 'a \<Rightarrow> number) \<Rightarrow> 'a \<Rightarrow> 'a list \<Rightarrow> 'a list" where
  "js_insert cmp x [] = [x]"
| "js_insert cmp x (y # ys) = (if cmp x y \<le> 0 then x # y # ys else y # js_insert cmp x ys)"

definition js_sort :: "('a \<Rightarrow> 'a \<Rightarrow> number) \<Rightarrow> 'a list \<Rightarrow> 'a list" where
  "js_sort cmp xs = foldr (js_insert cmp) xs []"

section \<open>ProjectLoader: runtime model conversion\<close>

text \<open>Decimal digits of an array index, for the template strings of the defaults.\<close>

definition digit_char :: "nat \<Rightarrow> char" where
  "digit_char d = char_of (48 + d)"

function string_of_nat :: "nat \<Rightarrow> string" where
  "string_of_nat n =
     (if n < 10 then [digit_char n] else string_of_nat (n div 10) @ [digit_char (n mod 10)])"
  by pat_completeness auto
termination
  by (relation "measure (\<lambda>n. n)") auto

text \<open>
  \<open>(a, b) => a.z_index - b.z_index\<close>. With an absent \<open>z_index\<close> the difference is NaN,
  which the sort reads as \<open>+0\<close>.
\<close>

definition compare_z_index :: "ProjectLayer \<Rightarrow> ProjectLayer \<Rightarrow> number" where
  "compare_z_index a b =
     (case (z_index a, z_index b) of (Some x, Some y) \<Rightarrow> x - y | _ \<Rightarrow> 0)"

text \<open>
  What \<open>ProjectLoader\<close> takes from the platform: whether the page runs inside the native
  host (\<open>isTauri()\<close>), and the text that a template string gives for a number.
\<close>

record loader_platform =
  ld_isTauri :: bool
  number_text :: "number \<Rightarrow> string"

text \<open>
  \<open>btoa\<close>: the Base64 text of the code units of a string, each of them one byte; a string
  with a code unit above \<open>0xFF\<close> throws. The code units up to \<open>0x7F\<close> are their own
  UTF-8 byte, those from \<open>0x80\<close> to \<open>0xFF\<close> follow a byte \<open>0xC2\<close> or \<open>0xC3\<close>.
\<close>

datatype convert_error = InvalidCharacterError

fun code_units :: "string \<Rightarrow> nat list" where
  "code_units [] = []"
| "code_units [c] = [of_char c]"
| "code_units (c # d # cs) =
     (if (of_char c :: nat) = 0xC2 then of_char d # code_units cs
      else if (of_char c :: nat) = 0xC3 then (of_char d + 64) # code_units cs
      else of_char c # code_units (d # cs))"

definition sextet :: "nat \<Rightarrow> char" where
  "sextet n =
     ''ABCDEFGHIJKLMNOPQRSTUVWXYZabcdefghijklmnopqrstuvwxyz0123456789+/'' ! (n mod 64)"

fun base64 :: "nat list \<Rightarrow> string" where
  "base64 [] = []"
| "base64 [a] = [sextet (a div 4), sextet (a mod 4 * 16), CHR ''='', CHR ''='']"
| "base64 [a, b] =
     [sextet (a div 4), sextet (a mod 4 * 16 + b div 16), sextet (b mod 16 * 4), CHR ''='']"
| "base64 (a # b # c # rest) =
     [sextet (a div 4), sextet (a mod 4 * 16 + b div 16), sextet (b mod 16 * 4 + c div 64),
      sextet (c mod 64)] @ base64 rest"

definition btoa :: "string \<Rightarrow> convert_error + string" where
  "btoa s = (if latin1 s then Inr (base64 (code_units s)) else Inl InvalidCharacterError)"

text \<open>
  \<open>createPlaceholder\<close>: the SVG markup around the text and the size, handed to \<open>btoa\<close>.
  The sign between width and height is \<open>U+00D7\<close>, the bytes \<open>0xC3 0x97\<close>.
\<close>

definition placeholder_svg :: "loader_platform \<Rightarrow> string \<Rightarrow> number \<Rightarrow> number \<Rightarrow> string" where
  \<open>placeholder_svg env text width height =
     [CHR 0x0A] @
     ''      <svg width="'' @ number_text env width @ ''" height="'' @ number_text env height
       @ ''" xmlns="http://www.w3.org/2000/svg">'' @ [CHR 0x0A] @
     ''        <rect width="100%" height="100%" fill="#f0f0f0" stroke="#ddd" stroke-width="2"/>''
       @ [CHR 0x0A] @
     ''        <text x="50%" y="50%" text-anchor="middle" dy="0.3em" '' @ [CHR 0x0A] @
     ''              font-family="Arial, sans-serif" font-size="24" fill="#666">'' @ [CHR 0x0A] @
     ''          '' @ text @ [CHR 0x0A] @
     ''        </text>'' @ [CHR 0x0A] @
     ''        <text x="50%" y="60%" text-anchor="middle" dy="0.3em" '' @ [CHR 0x0A] @
     ''              font-family="Arial, sans-serif" font-size="16" fill="#999">'' @ [CHR 0x0A] @
     ''          '' @ number_text env width @ [CHR 0xC3, CHR 0x97] @ number_text env height
       @ [CHR 0x0A] @
     ''        </text>'' @ [CHR 0x0A] @
     ''      </svg>'' @ [CHR 0x0A] @
     ''    ''\<close>

definition createPlaceholder ::
  "loader_platform \<Rightarrow> string \<Rightarrow> number \<Rightarrow> number \<Rightarrow> convert_error + string" where
  "createPlaceholder env text width height =
     (case btoa (placeholder_svg env text width height) of
        Inl e \<Rightarrow> Inl e
      | Inr encoded \<Rightarrow> Inr (''data:image/svg+xml;base64,'' @ encoded))"

text \<open>
  \<open>convertFilePathToSrc\<close>: in the native host with a project directory a placeholder
  named after the file; for a path with \<open>assets/\<close> in it the web asset of the file name;
  otherwise a placeholder named after the file without its image extension.
\<close>

definition convertFilePathToSrc ::
  "loader_platform \<Rightarrow> string \<Rightarrow> number \<Rightarrow> number \<Rightarrow> string option
     \<Rightarrow> convert_error + string" where
  "convertFilePathToSrc env filePath width height projectDir =
     (if ld_isTauri env \<and> nonempty projectDir \<and> filePath \<noteq> []
      then createPlaceholder env (or_default (Some (last_segment filePath)) ''Layer'')
             width height
      else if filePath \<noteq> [] \<and> string_includes filePath ''assets/''
              \<and> last_segment filePath \<noteq> []
      then Inr (''/project-assets/'' @ last_segment filePath)
      else (let filename = (if filePath \<noteq> []
                            then strip_image_extension (last_segment filePath)
                            else ''Layer'')
            in createPlaceholder env (or_default (Some filename) ''Layer'') width height))"

text \<open>
  The callback of \<open>map\<close> in \<open>convertProjectLayersToRuntimeLayers\<close>: one runtime layer,
  or the error that \<open>convertFilePathToSrc\<close> throws.
\<close>

definition convert_layer ::
  "loader_platform \<Rightarrow> string option \<Rightarrow> nat \<Rightarrow> ProjectLayer \<Rightarrow> convert_error + Layer" where
  "convert_layer env projectDir index layer =
     (let width = (if pl_width layer > 0 then pl_width layer else 1920);
          height = (if pl_height layer > 0 then pl_height layer else 1080)
      in case convertFilePathToSrc env (pl_file_path layer) width height projectDir of
           Inl e \<Rightarrow> Inl e
         | Inr src \<Rightarrow>
             Inr \<lparr>l_id = (if pl_id layer \<noteq> [] then pl_id layer
                          else ''layer-'' @ string_of_nat index),
                  l_name = (if pl_name layer \<noteq> [] then pl_name layer
                            else ''Layer '' @ string_of_nat (index + 1)),
                  l_src = src,
                  l_file_path = (if pl_file_path layer \<noteq> [] then pl_file_path layer
                                 else ''./assets/layer_'' @ string_of_nat (index + 1)
                                      @ ''.png''),
                  l_width = width,
                  l_height = height,
                  isVisible = (case is_visible layer of Some b \<Rightarrow> b | None \<Rightarrow> True),
                  zIndex = (case z_index layer of Some z \<Rightarrow> z | None \<Rightarrow> of_nat index)\<rparr>)"

text \<open>\<open>Array.prototype.map\<close> with a callback that can throw: the first throw ends the map.\<close>

fun map_throwing :: "('a \<Rightarrow> 'e + 'b) \<Rightarrow> 'a list \<Rightarrow> 'e + 'b list" where
  "map_throwing f [] = Inr []"
| "map_throwing f (x # xs) =
     (case f x of
        Inl e \<Rightarrow> Inl e
      | Inr y \<Rightarrow> (case map_throwing f xs of Inl e \<Rightarrow> Inl e | Inr ys \<Rightarrow> Inr (y # ys)))"

text \<open>
  \<open>convertProjectLayersToRuntimeLayers\<close>: the layers are sorted by \<open>z_index\<close> and then
  converted one by one, each with its index in the sorted array. \<open>sort\<close> works in
  place: the caller's array holds the layers in the sorted order afterwards, also when
  the conversion throws.
\<close>

definition convertProjectLayersToRuntimeLayers ::
  "loader_platform \<Rightarrow> ProjectLayer list \<Rightarrow> string option \<Rightarrow> convert_error + Layer list" where
  "convertProjectLayersToRuntimeLayers env projectLayers projectDir =
     map_throwing (\<lambda>(index, layer). convert_layer env projectDir index layer)
       (enumerate 0 (js_sort compare_z_index projectLayers))"

definition convertRuntimeLayersToProjectLayers :: "Layer list \<Rightarrow> ProjectLayer list" where
  "convertRuntimeLayersToProjectLayers ls =
     map (\<lambda>layer. \<lparr>pl_id = l_id layer,
                   pl_name = l_name layer,
                   pl_file_path = l_file_path layer,
                   pl_width = l_width layer,
                   pl_height = l_height layer,
                   is_visible = Some (isVisible layer),
                   z_index = Some (zIndex layer)\<rparr>) ls"

text \<open>
  A layer entry for which no default of the converter applies: non-empty id, name and
  file path, positive dimensions, a boolean \<open>is_visible\<close> and a numeric \<open>z_index\<close>.
\<close>

definition valid_project_layer :: "ProjectLayer \<Rightarrow> bool" where
  "valid_project_layer layer \<longleftrightarrow>
     pl_id layer \<noteq> [] \<and> pl_name layer \<noteq> [] \<and> pl_file_path layer \<noteq> []
     \<and> 0 < pl_width layer \<and> 0 < pl_height layer
     \<and> is_visible layer \<noteq> None \<and> z_index layer \<noteq> None"

text \<open>
  Identity asset resolution: \<open>convertFilePathToSrc\<close> takes the branch that resolves the
  path to the asset of its file name, and substitutes no placeholder.
\<close>

definition resolves_to_asset :: "loader_platform \<Rightarrow> string option \<Rightarrow> string \<Rightarrow> bool" where
  "resolves_to_asset env projectDir filePath \<longleftrightarrow>
     (if ld_isTauri env \<and> nonempty projectDir \<and> filePath \<noteq> [] then False
      else filePath \<noteq> [] \<and> string_includes filePath ''assets/'' \<and> last_segment filePath \<noteq> [])"

text \<open>
  The round trip: \<open>convertRuntimeLayersToProjectLayers\<close> of the runtime layers, when the
  conversion to runtime layers returns them.
\<close>

definition project_round_trip ::
  "loader_platform \<Rightarrow> ProjectLayer list \<Rightarrow> string option \<Rightarrow> convert_error + ProjectLayer list" where
  "project_round_trip env projectLayers projectDir =
     (case convertProjectLayersToRuntimeLayers env projectLayers projectDir of
        Inl e \<Rightarrow> Inl e
      | Inr runtimeLayers \<Rightarrow> Inr (convertRuntimeLayersToProjectLayers runtimeLayers))"

text \<open>
  \<open>exportProject\<close>; \<open>now\<close> is the result of \<open>new Date().toISOString()\<close>, and an
  absent or empty \<open>created_at\<close> is falsy.
\<close>

definition exportProject ::
  "string \<Rightarrow> Layer list \<Rightarrow> preset_any list \<Rightarrow> number \<Rightarrow> number \<Rightarrow> ProjectFile" where
  "exportProject now ls presets cw ch =
     \<lparr>pf_version = ''1.0'',
      pf_canvas = \<lparr>pc_width = cw, pc_height = ch\<rparr>,
      pf_layers = convertRuntimeLayersToProjectLayers ls,
      pf_presets =
        map (\<lambda>preset.
               \<lparr>lp_id = p_id preset,
                lp_name = p_name preset,
                layer_states = (case p_layerStates preset of
                                  Some m \<Rightarrow> Some m
                                | None \<Rightarrow> p_layer_states preset),
                created_at = (case p_createdAt preset of
                                Some d \<Rightarrow> d
                              | None \<Rightarrow> (case p_created_at preset of
                                            None \<Rightarrow> now
                                          | Some s \<Rightarrow> if s \<noteq> [] then s else now))\<rparr>)
            presets\<rparr>"


section \<open>ProjectLoader: loading and validating a project file\<close>

text \<open>
  The value that \<open>JSON.parse\<close> returns for the text of a project file. A number is the
  finite value that the parser produced.
\<close>

datatype json =
    JNull
  | JBool bool
  | JNum number
  | JStr string
  | JArr "json list"
  | JObj "(string \<times> json) list"

text \<open>
  Reading a property of a parsed value that is not \<open>null\<close>; \<open>None\<close> is \<open>undefined\<close>.
  Of a repeated key \<open>JSON.parse\<close> keeps the last occurrence. The loader reads the keys
  \<open>version\<close>, \<open>canvas\<close>, \<open>layers\<close>, \<open>presets\<close>, \<open>width\<close> and \<open>height\<close>, none of
  which a number, boolean, string or array has.
\<close>

fun property :: "json \<Rightarrow> string \<Rightarrow> json option" where
  "property (JObj kvs) k = map_of (rev kvs) k"
| "property _ k = None"

text \<open>The truth value of \<open>!!v\<close>.\<close>

fun truthy :: "json option \<Rightarrow> bool" where
  "truthy None = False"
| "truthy (Some JNull) = False"
| "truthy (Some (JBool b)) = b"
| "truthy (Some (JNum n)) = (n \<noteq> 0)"
| "truthy (Some (JStr s)) = (s \<noteq> [])"
| "truthy (Some (JArr xs)) = True"
| "truthy (Some (JObj kvs)) = True"

text \<open>\<open>typeof v === 'number'\<close> and \<open>Array.isArray(v)\<close>.\<close>

fun typeof_number :: "json option \<Rightarrow> bool" where
  "typeof_number (Some (JNum n)) = True"
| "typeof_number _ = False"

fun isArray :: "json option \<Rightarrow> bool" where
  "isArray (Some (JArr xs)) = True"
| "isArray _ = False"

text \<open>The number read by a comparison whose operand passed \<open>typeof_number\<close>.\<close>

fun num_of :: "json option \<Rightarrow> number" where
  "num_of (Some (JNum n)) = n"
| "num_of _ = 0"

text \<open>
  What the file reader delivers: a read error, a text that \<open>JSON.parse\<close> rejects, or a
  text with its parsed value.
\<close>

datatype file_content = Unreadable | Unparsable | Parsed json

text \<open>
  The rejections of \<open>loadProjectFile\<close>. \<open>ReadFailed\<close> is the reader's \<open>onerror\<close>; every
  other one is thrown inside the \<open>try\<close> block and rejected as
  \<open>Failed to parse project file: ...\<close> with the message of the thrown error:
  \<open>SyntaxError\<close> from \<open>JSON.parse\<close>, \<open>TypeError\<close> from reading \<open>version\<close> of \<open>null\<close>,
  and the six validation errors. \<open>InvalidFormat\<close> is the one error of the older loader.
\<close>

datatype load_error =
    ReadFailed
  | SyntaxError
  | TypeError
  | MissingVersion
  | InvalidCanvas
  | InvalidLayers
  | InvalidPresets
  | NonPositiveCanvas
  | CanvasTooLarge
  | InvalidFormat

fun error_message :: "load_error \<Rightarrow> string" where
  "error_message ReadFailed = ''Failed to read file''"
| "error_message SyntaxError = ''Failed to parse project file: (message of the syntax error)''"
| "error_message TypeError = ''Failed to parse project file: (message of the type error)''"
| "error_message MissingVersion = ''Failed to parse project file: Missing version field''"
| "error_message InvalidCanvas =
     ''Failed to parse project file: Missing or invalid canvas dimensions''"
| "error_message InvalidLayers = ''Failed to parse project file: Missing or invalid layers array''"
| "error_message InvalidPresets =
     ''Failed to parse project file: Missing or invalid presets array''"
| "error_message NonPositiveCanvas =
     ''Failed to parse project file: Canvas dimensions must be positive''"
| "error_message CanvasTooLarge =
     ''Failed to parse project file: Canvas dimensions are too large (max 50000px)''"
| "error_message InvalidFormat =
     ''Failed to parse project file: Error: Invalid project file format''"

text \<open>The body of the \<open>try\<close> block after \<open>JSON.parse\<close>: it resolves with the parsed value.\<close>

definition validate_project :: "json \<Rightarrow> load_error + json" where
  "validate_project project =
     (if project = JNull then Inl TypeError
      else if \<not> truthy (property project ''version'') then Inl MissingVersion
      else
        (case property project ''canvas'' of
           None \<Rightarrow> Inl InvalidCanvas
         | Some canvas \<Rightarrow>
             if \<not> truthy (Some canvas)
                \<or> \<not> typeof_number (property canvas ''width'')
                \<or> \<not> typeof_number (property canvas ''height'')
             then Inl InvalidCanvas
             else if \<not> isArray (property project ''layers'') then Inl InvalidLayers
             else if \<not> isArray (property project ''presets'') then Inl InvalidPresets
             else if num_of (property canvas ''width'') \<le> 0
                     \<or> num_of (property canvas ''height'') \<le> 0
                  then Inl NonPositiveCanvas
             else if num_of (property canvas ''width'') > 50000
                     \<or> num_of (property canvas ''height'') > 50000
                  then Inl CanvasTooLarge
             else Inr project))"

definition loadProjectFile :: "file_content \<Rightarrow> load_error + json" where
  "loadProjectFile file =
     (case file of
        Unreadable \<Rightarrow> Inl ReadFailed
      | Unparsable \<Rightarrow> Inl SyntaxError
      | Parsed project \<Rightarrow> validate_project project)"

text \<open>
  The repository holds a second, older \<open>ProjectLoader\<close> (\<open>src/utils/project-loader.ts\<close>),
  whose \<open>loadProjectFile\<close> has one check.
\<close>

definition loadProjectFile_legacy :: "file_content \<Rightarrow> load_error + json" where
  "loadProjectFile_legacy file =
     (case file of
        Unreadable \<Rightarrow> Inl ReadFailed
      | Unparsable \<Rightarrow> Inl SyntaxError
      | Parsed project \<Rightarrow>
          if project = JNull then Inl TypeError
          else if \<not> truthy (property project ''version'')
                  \<or> \<not> truthy (property project ''canvas'')
                  \<or> \<not> truthy (property project ''layers'')
               then Inl InvalidFormat
          else Inr project)"

text \<open>
  In the native host \<open>TaskManager.handleOpen\<close> does not call \<open>loadProjectFile\<close>: its
  \<open>loadTauriProject\<close> reads the chosen file, parses it, converts the entries of
  \<open>layers\<close> and \<open>presets\<close> and calls \<open>onLoadProject\<close> with the results and with
  \<open>projectData.canvas.width\<close> and \<open>projectData.canvas.height\<close>. The function below is the
  part of it that decides those last two arguments (\<open>None\<close> is \<open>undefined\<close>): a
  \<open>TypeError\<close> arises where \<open>layers\<close> has no \<open>entries()\<close> or \<open>presets\<close> no \<open>map()\<close>,
  where one of their entries is \<open>null\<close>, and where \<open>canvas\<close> is \<open>null\<close> or absent.
\<close>

definition loadTauriProject_canvas :: "file_content \<Rightarrow> load_error + (json option \<times> json option)" where
  "loadTauriProject_canvas file =
     (case file of
        Unreadable \<Rightarrow> Inl ReadFailed
      | Unparsable \<Rightarrow> Inl SyntaxError
      | Parsed projectData \<Rightarrow>
          (case property projectData ''layers'' of
             Some (JArr projectLayers) \<Rightarrow>
               if JNull \<in> set projectLayers then Inl TypeError
               else
                 (case property projectData ''presets'' of
                    Some (JArr projectPresets) \<Rightarrow>
                      if JNull \<in> set projectPresets then Inl TypeError
                      else
                        (case property projectData ''canvas'' of
                           None \<Rightarrow> Inl TypeError
                         | Some canvas \<Rightarrow>
                             if canvas = JNull then Inl TypeError
                             else Inr (property canvas ''width'', property canvas ''height''))
                  | _ \<Rightarrow> Inl TypeError)
           | _ \<Rightarrow> Inl TypeError))"

text \<open>
  The checks of the validator as the specification lists them, each with the error of
  its violation, in the order of the list.
\<close>

definition canvas_dims :: "json \<Rightarrow> (number \<times> number) option" where
  "canvas_dims project =
     (case property project ''canvas'' of
        Some (JObj kvs) \<Rightarrow>
          (case (property (JObj kvs) ''width'', property (JObj kvs) ''height'') of
             (Some (JNum w), Some (JNum h)) \<Rightarrow> Some (w, h)
           | _ \<Rightarrow> None)
      | _ \<Rightarrow> None)"

definition version_present :: "json \<Rightarrow> bool" where
  "version_present project =
     (case property project ''version'' of
        None \<Rightarrow> False
      | Some v \<Rightarrow> v \<noteq> JNull \<and> v \<noteq> JBool False \<and> v \<noteq> JNum 0 \<and> v \<noteq> JStr [])"

definition canvas_numeric :: "json \<Rightarrow> bool" where
  "canvas_numeric project = (canvas_dims project \<noteq> None)"

definition layers_is_sequence :: "json \<Rightarrow> bool" where
  "layers_is_sequence project =
     (case property project ''layers'' of Some (JArr xs) \<Rightarrow> True | _ \<Rightarrow> False)"

definition presets_is_sequence :: "json \<Rightarrow> bool" where
  "presets_is_sequence project =
     (case property project ''presets'' of Some (JArr xs) \<Rightarrow> True | _ \<Rightarrow> False)"

definition canvas_positive :: "json \<Rightarrow> bool" where
  "canvas_positive project =
     (case canvas_dims project of Some (w, h) \<Rightarrow> 0 < w \<and> 0 < h | None \<Rightarrow> False)"

definition canvas_within_limit :: "json \<Rightarrow> bool" where
  "canvas_within_limit project =
     (case canvas_dims project of Some (w, h) \<Rightarrow> w \<le> 50000 \<and> h \<le> 50000 | None \<Rightarrow> False)"

definition specified_checks :: "((json \<Rightarrow> bool) \<times> load_error) list" where
  "specified_checks =
     [(version_present, MissingVersion),
      (canvas_numeric, InvalidCanvas),
      (layers_is_sequence, InvalidLayers),
      (presets_is_sequence, InvalidPresets),
      (canvas_positive, NonPositiveCanvas),
      (canvas_within_limit, CanvasTooLarge)]"

fun first_violation :: "((json \<Rightarrow> bool) \<times> load_error) list \<Rightarrow> json \<Rightarrow> load_error option" where
  "first_violation [] project = None"
| "first_violation ((check, err) # rest) project =
     (if check project then first_violation rest project else Some err)"

text \<open>Project files used by the examples below.\<close>

definition project_with_canvas :: "number \<Rightarrow> number \<Rightarrow> json" where
  "project_with_canvas w h =
     JObj [(''version'', JStr ''1.0''),
           (''canvas'', JObj [(''width'', JNum w), (''height'', JNum h)]),
           (''layers'', JArr []),
           (''presets'', JArr [])]"


section \<open>TaskManager\<close>

text \<open>
  The context that the page installs in the task manager whenever the layers or the
  canvas size change: layers and canvas size (and two callbacks, which the operations
  below do not call). It has no field for the presets.
\<close>

record TaskContext =
  ctx_layers :: "Layer list"
  canvasWidth :: number
  canvasHeight :: number

record TaskManager =
  tm_context :: TaskContext
  currentProjectPath :: "string option"

definition task_context :: "editor \<Rightarrow> TaskContext" where
  "task_context ed =
     \<lparr>ctx_layers = layers ed, canvasWidth = ed_canvasWidth ed, canvasHeight = ed_canvasHeight ed\<rparr>"

definition updateContext :: "TaskContext \<Rightarrow> TaskManager \<Rightarrow> TaskManager" where
  "updateContext c tm = tm\<lparr>tm_context := c\<rparr>"

subsection \<open>The canvas and the platform\<close>

text \<open>
  A canvas is its size and the \<open>drawImage\<close> calls made on it since it was cleared, in the
  order they were made; a canvas without calls is blank. A call draws the decoded image of
  a layer into a destination rectangle.
\<close>

record draw =
  d_layer :: Layer
  d_x :: number
  d_y :: number
  d_width :: number
  d_height :: number

record canvas =
  cv_width :: number
  cv_height :: number
  cv_ops :: "draw list"

datatype image_format = PNG | JPG

text \<open>The arguments of one \<open>downloadCanvas\<close> call, with the canvas as it was then.\<close>

record download =
  dl_canvas :: canvas
  dl_filename :: string
  dl_format :: image_format

text \<open>
  What the operations take from the platform: whether the page runs inside the native
  host, whether a 2d context can be had, whether a \<open>downloadCanvas\<close> call returns (or
  throws, as a failing save dialog makes it), the path chosen in the native save dialog
  and the answer to the browser prompt (\<open>None\<close> when dismissed), and the clock.
\<close>

record platform =
  isTauri :: bool
  context2d :: bool
  download_returns :: "download \<Rightarrow> bool"
  save_dialog :: "string option"
  prompt_answer :: "string option"
  now_iso :: string

subsection \<open>Quick export\<close>

text \<open>
  The promise of an export: pending, resolved, or rejected. An export with visible layers
  is driven by the decode events of its images: \<open>Loaded i\<close> is \<open>onload\<close> and
  \<open>Failed i\<close> is \<open>onerror\<close> of the image of the \<open>i\<close>-th visible layer.
\<close>

datatype outcome = Pending | Resolved | Rejected

datatype decode_event = Loaded nat | Failed nat

fun event_index :: "decode_event \<Rightarrow> nat" where
  "event_index (Loaded i) = i"
| "event_index (Failed i) = i"

record export_run =
  ex_canvas :: canvas
  loadedImages :: nat
  downloads :: "download list"
  promise :: outcome

text \<open>
  The repository holds two task managers: the one that knows the native host (it has
  \<open>isTauri\<close> and \<open>currentProjectPath\<close>) and an older one for the browser alone. Their
  quick exports differ in the \<open>drawImage\<close> call of \<open>img.onload\<close>; the rest of the
  function is the same up to logging.
\<close>

text \<open>
  \<open>img.onload\<close> of the host-aware task manager up to \<open>drawImage\<close>: the destination
  rectangle of a layer. The quotients are exact here; where a layer dimension is \<open>0\<close>
  JavaScript computes with \<open>Infinity\<close> or \<open>NaN\<close>, which the model does not, so the
  properties below are about layers of positive size.
\<close>

definition layer_draw :: "TaskContext \<Rightarrow> Layer \<Rightarrow> draw" where
  "layer_draw c layer =
     (let scaleX = canvasWidth c / l_width layer;
          scaleY = canvasHeight c / l_height layer;
          scale = min scaleX scaleY;
          scaledWidth = l_width layer * scale;
          scaledHeight = l_height layer * scale;
          offsetX = (canvasWidth c - scaledWidth) / 2;
          offsetY = (canvasHeight c - scaledHeight) / 2
      in \<lparr>d_layer = layer, d_x = offsetX, d_y = offsetY,
          d_width = scaledWidth, d_height = scaledHeight\<rparr>)"

text \<open>
  \<open>img.onload\<close> of the browser-only task manager:
  \<open>ctx.drawImage(img, 0, 0, canvasWidth, canvasHeight)\<close>.
\<close>

definition layer_draw_web :: "TaskContext \<Rightarrow> Layer \<Rightarrow> draw" where
  "layer_draw_web c layer =
     \<lparr>d_layer = layer, d_x = 0, d_y = 0,
      d_width = canvasWidth c, d_height = canvasHeight c\<rparr>"

text \<open>
  \<open>checkComplete\<close>: when the counter has reached the number of visible layers the canvas
  is handed to \<open>downloadCanvas\<close>, and the promise resolves once that call has returned.
\<close>

definition checkComplete :: "platform \<Rightarrow> string \<Rightarrow> nat \<Rightarrow> export_run \<Rightarrow> export_run" where
  "checkComplete p filename totalImages run =
     (if loadedImages run = totalImages
      then (let call = \<lparr>dl_canvas = ex_canvas run, dl_filename = filename, dl_format = PNG\<rparr>;
                run' = run\<lparr>downloads := downloads run @ [call]\<rparr>
            in if download_returns p call \<and> promise run' = Pending
               then run'\<lparr>promise := Resolved\<rparr> else run')
      else run)"

text \<open>
  One decode event; \<open>dr\<close> is the destination rectangle that \<open>onload\<close> computes. An
  event for an index at which there is no visible layer belongs to no image of this export
  and changes nothing.
\<close>

definition on_decode ::
  "platform \<Rightarrow> (Layer \<Rightarrow> draw) \<Rightarrow> string \<Rightarrow> Layer list \<Rightarrow> export_run \<Rightarrow> decode_event
     \<Rightarrow> export_run" where
  "on_decode p dr filename visibleLayers run ev =
     (if event_index ev < length visibleLayers
      then (case ev of
              Loaded i \<Rightarrow>
                checkComplete p filename (length visibleLayers)
                  (run\<lparr>ex_canvas := (ex_canvas run)
                         \<lparr>cv_ops := cv_ops (ex_canvas run) @ [dr (visibleLayers ! i)]\<rparr>,
                       loadedImages := Suc (loadedImages run)\<rparr>)
            | Failed i \<Rightarrow>
                checkComplete p filename (length visibleLayers)
                  (run\<lparr>loadedImages := Suc (loadedImages run)\<rparr>))
      else run)"

text \<open>
  \<open>this.context.layers.filter((layer) => layer.isVisible).sort((a, b) => a.zIndex - b.zIndex)\<close>
\<close>

definition visible_sorted :: "Layer list \<Rightarrow> Layer list" where
  "visible_sorted ls = js_sort (\<lambda>a b. zIndex a - zIndex b) (filter isVisible ls)"

text \<open>The canvas after \<open>clearRect\<close>, and the export before any decode event.\<close>

definition blank_canvas :: "TaskContext \<Rightarrow> canvas" where
  "blank_canvas c = \<lparr>cv_width = canvasWidth c, cv_height = canvasHeight c, cv_ops = []\<rparr>"

definition export_start :: "TaskContext \<Rightarrow> export_run" where
  "export_start c =
     \<lparr>ex_canvas = blank_canvas c, loadedImages = 0, downloads = [], promise = Pending\<rparr>"

text \<open>
  The body that both \<open>handleQuickExportPNG\<close> functions share, with the decode events that
  reach it in the order in which they arrive; the result is the state of the export after
  the last of them. Without a 2d context the function throws; without visible layers it
  downloads the blank canvas and returns.
\<close>

definition export_png ::
  "(Layer \<Rightarrow> draw) \<Rightarrow> platform \<Rightarrow> TaskContext \<Rightarrow> string \<Rightarrow> decode_event list
     \<Rightarrow> export_run" where
  "export_png dr p c filename events =
     (if \<not> context2d p then (export_start c)\<lparr>promise := Rejected\<rparr>
      else
        (let visibleLayers = visible_sorted (ctx_layers c)
         in if length visibleLayers = 0
            then (let call = \<lparr>dl_canvas = blank_canvas c, dl_filename = filename,
                              dl_format = PNG\<rparr>
                  in (export_start c)
                       \<lparr>downloads := [call],
                        promise := (if download_returns p call then Resolved else Rejected)\<rparr>)
            else foldl (on_decode p dr filename visibleLayers) (export_start c) events))"

definition handleQuickExportPNG ::
  "platform \<Rightarrow> TaskContext \<Rightarrow> string \<Rightarrow> decode_event list \<Rightarrow> export_run" where
  "handleQuickExportPNG p c filename events = export_png (layer_draw c) p c filename events"

definition handleQuickExportPNG_web ::
  "platform \<Rightarrow> TaskContext \<Rightarrow> string \<Rightarrow> decode_event list \<Rightarrow> export_run" where
  "handleQuickExportPNG_web p c filename events =
     export_png (layer_draw_web c) p c filename events"

text \<open>
  The layers painted on the canvas of an export, in the order of painting, and the indices
  of the decodes that succeeded, in the order of their events.
\<close>

fun loaded_indices :: "decode_event list \<Rightarrow> nat list" where
  "loaded_indices [] = []"
| "loaded_indices (Loaded i # evs) = i # loaded_indices evs"
| "loaded_indices (Failed i # evs) = loaded_indices evs"

definition painted :: "export_run \<Rightarrow> Layer list" where
  "painted run = map d_layer (cv_ops (ex_canvas run))"

subsection \<open>Save\<close>

text \<open>
  What a save leaves behind: a text file written at a path, or a JSON download under a
  file name. The project is the value that \<open>JSON.stringify\<close> is given.
\<close>

datatype save_effect = WriteTextFile string ProjectFile | DownloadJson string ProjectFile

text \<open>
  \<open>handleSave\<close> and \<open>handleSaveAs\<close> of the host-aware task manager; with \<open>isTauri\<close>
  false they are the two functions of the browser-only one. A save dialog or a write that
  throws makes the save reject after the project has been built; that is left out here.
\<close>

function handleSave ::
    "platform \<Rightarrow> TaskManager \<Rightarrow> string option \<Rightarrow> TaskManager \<times> save_effect list"
  and handleSaveAs ::
    "platform \<Rightarrow> TaskManager \<Rightarrow> string option \<Rightarrow> TaskManager \<times> save_effect list" where
  "handleSave p tm filename =
     (if isTauri p
      then (case currentProjectPath tm of
              None \<Rightarrow> handleSaveAs p tm filename
            | Some path \<Rightarrow>
                if path = [] then handleSaveAs p tm filename
                else (let projectData =
                            exportProject (now_iso p) (ctx_layers (tm_context tm)) []
                              (canvasWidth (tm_context tm)) (canvasHeight (tm_context tm))
                      in (tm, [WriteTextFile path projectData])))
      else (let projectData =
                  exportProject (now_iso p) (ctx_layers (tm_context tm)) []
                    (canvasWidth (tm_context tm)) (canvasHeight (tm_context tm))
            in (tm, [DownloadJson (or_default filename ''project'' @ ''.json'') projectData])))"
| "handleSaveAs p tm filename =
     (if isTauri p
      then (if nonempty (save_dialog p)
            then handleSave p (tm\<lparr>currentProjectPath := save_dialog p\<rparr>) None
            else (tm, []))
      else (if nonempty (prompt_answer p)
            then handleSave p tm (prompt_answer p)
            else (tm, [])))"
  by pat_completeness auto
termination
  by (relation "measure (\<lambda>x. case x of
          Inl (p, tm, f) \<Rightarrow> (if isTauri p \<and> \<not> nonempty (currentProjectPath tm) then 2 else 0)
        | Inr (p, tm, f) \<Rightarrow> 1)") auto

text \<open>
  The page's save action: the task manager holds the context of the current render and
  is asked to run a save task without a file name.
\<close>

definition page_handleSave ::
  "platform \<Rightarrow> editor \<Rightarrow> TaskManager \<Rightarrow> TaskManager \<times> save_effect list" where
  "page_handleSave p ed tm = handleSave p (updateContext (task_context ed) tm) None"

text \<open>What \<open>exportProject\<close> makes of the presets the page holds.\<close>

definition presets_on_disk :: "platform \<Rightarrow> editor \<Rightarrow> LayerPreset list" where
  "presets_on_disk p ed =
     pf_presets (exportProject (now_iso p) (layers ed) (ed_presets ed)
                   (ed_canvasWidth ed) (ed_canvasHeight ed))"

fun saved_project :: "save_effect \<Rightarrow> ProjectFile" where
  "saved_project (WriteTextFile path project) = project"
| "saved_project (DownloadJson name project) = project"


section \<open>Examples\<close>

text \<open>
  The inputs of the examples below: a loader in the browser (the sizes of the examples are
  natural numbers, printed in decimal), a layer list on disk with its assets, a
  layer whose file name has a character above \<open>U+00FF\<close>, an export context over the
  three example layers, a browser whose downloads succeed, and an editor holding a preset.
\<close>

definition browser_loader :: loader_platform where
  "browser_loader =
     \<lparr>ld_isTauri = False, number_text = (\<lambda>n. string_of_nat (nat \<lfloor>n\<rfloor>))\<rparr>"

definition ex_project_layers :: "ProjectLayer list" where
  "ex_project_layers =
     [\<lparr>pl_id = ''top'', pl_name = ''Top'', pl_file_path = ''./assets/top.png'',
       pl_width = 800, pl_height = 600, is_visible = Some True, z_index = Some 1\<rparr>,
      \<lparr>pl_id = ''base'', pl_name = ''Base'', pl_file_path = ''./assets/base.png'',
       pl_width = 800, pl_height = 600, is_visible = Some False, z_index = Some 0\<rparr>]"

definition ex_unicode_layer :: ProjectLayer where
  "ex_unicode_layer =
     \<lparr>pl_id = ''sky'', pl_name = ''Sky'',
      pl_file_path = ''./img/'' @ [CHR 0xE5, CHR 0xB1, CHR 0x82] @ ''.png'',
      pl_width = 800, pl_height = 600, is_visible = Some True, z_index = Some 0\<rparr>"

definition ex_context :: TaskContext where
  "ex_context = \<lparr>ctx_layers = ex_layers, canvasWidth = 100, canvasHeight = 100\<rparr>"

definition browser :: platform where
  "browser = \<lparr>isTauri = False, context2d = True, download_returns = (\<lambda>call. True),
              save_dialog = None, prompt_answer = None,
              now_iso = ''2025-01-01T00:00:00.000Z''\<rparr>"

definition ex_preset :: preset_any where
  "ex_preset =
     \<lparr>p_id = ''preset-1'', p_name = ''Outfit A'', p_layerStates = None,
      p_layer_states = Some [''a'' \<mapsto> True, ''b'' \<mapsto> False, ''c'' \<mapsto> True],
      p_createdAt = None, p_created_at = Some ''2025-01-01T00:00:00.000Z''\<rparr>"

definition ex_editor_with_preset :: editor where
  "ex_editor_with_preset = (ex_editor ex_layers None)\<lparr>ed_presets := [ex_preset]\<rparr>"

definition ex_task_manager :: TaskManager where
  "ex_task_manager = \<lparr>tm_context = task_context (ex_editor [] None), currentProjectPath = None\<rparr>"


section \<open>Properties of the layer operations\<close>

lemma findIndex_Some:
  "findIndex P xs = Some i \<Longrightarrow> i < length xs \<and> P (xs ! i)"
  by (induction xs arbitrary: i) (auto split: if_splits)

lemma findIndex_None: "findIndex P xs = None \<longleftrightarrow> (\<forall>x\<in>set xs. \<not> P x)"
  by (induction xs) auto

lemma length_splice_remove:
  "i < length xs \<Longrightarrow> Suc (length (splice_remove i xs)) = length xs"
  by (auto simp: splice_remove_def)

lemma mset_splice_remove:
  "i < length xs \<Longrightarrow> add_mset (xs ! i) (mset (splice_remove i xs)) = mset xs"
proof -
  assume a: "i < length xs"
  have "xs = take i xs @ (xs ! i) # drop (Suc i) xs"
    using a by (simp add: id_take_nth_drop)
  then have "mset xs = mset (take i xs @ (xs ! i) # drop (Suc i) xs)" by simp
  then show ?thesis by (simp add: splice_remove_def)
qed

lemma length_splice_insert: "length (splice_insert i x xs) = Suc (length xs)"
  by (auto simp: splice_insert_def)

lemma nth_splice_insert: "i \<le> length xs \<Longrightarrow> splice_insert i x xs ! i = x"
  by (simp add: splice_insert_def nth_append)

lemma mset_splice_insert: "mset (splice_insert i x xs) = add_mset x (mset xs)"
proof -
  have "mset (take i xs @ drop i xs) = mset xs" by simp
  then show ?thesis unfolding splice_insert_def by (simp del: append_take_drop_id)
qed

lemma length_renumber: "length (renumber ls) = length ls"
  by (simp add: renumber_def)

lemma nth_renumber: "i < length ls \<Longrightarrow> renumber ls ! i = (ls ! i)\<lparr>zIndex := of_nat i\<rparr>"
  by (simp add: renumber_def nth_enumerate_eq)

lemma ids_renumber: "map l_id (renumber ls) = map l_id ls"
  by (rule nth_equalityI) (simp_all add: length_renumber nth_renumber)

lemma reorder_present:
  assumes d: "findIndex (\<lambda>layer. l_id layer = draggedId) prev = Some d"
      and t: "findIndex (\<lambda>layer. l_id layer = targetId) prev = Some t"
  shows "length (handleReorderLayers draggedId targetId prev) = length prev
       \<and> handleReorderLayers draggedId targetId prev ! t = (prev ! d)\<lparr>zIndex := of_nat t\<rparr>
       \<and> l_id (handleReorderLayers draggedId targetId prev ! t) = draggedId
       \<and> mset (map l_id (handleReorderLayers draggedId targetId prev)) = mset (map l_id prev)
       \<and> (\<forall>i<length prev. zIndex (handleReorderLayers draggedId targetId prev ! i) = of_nat i)"
proof -
  let ?mid = "splice_insert t (prev ! d) (splice_remove d prev)"
  have r: "handleReorderLayers draggedId targetId prev = renumber ?mid"
    using d t by (simp add: handleReorderLayers_def)
  have dl: "d < length prev" and did: "l_id (prev ! d) = draggedId"
    using findIndex_Some[OF d] by auto
  have tl: "t < length prev" using findIndex_Some[OF t] by auto
  have len: "length ?mid = length prev"
    using length_splice_remove[OF dl] by (simp add: length_splice_insert)
  have tle: "t \<le> length (splice_remove d prev)"
    using length_splice_remove[OF dl] tl by linarith
  have at: "?mid ! t = prev ! d" using tle by (rule nth_splice_insert)
  have ms: "mset ?mid = mset prev"
    using mset_splice_remove[OF dl] by (simp add: mset_splice_insert)
  have "mset (map l_id (renumber ?mid)) = image_mset l_id (mset ?mid)"
    by (simp add: ids_renumber)
  then have ids: "mset (map l_id (renumber ?mid)) = mset (map l_id prev)"
    by (simp add: ms)
  show ?thesis
    using len at did tl ids by (simp add: r length_renumber nth_renumber)
qed

lemma findIndex_first:
  "findIndex P xs = Some i \<Longrightarrow> \<forall>j<i. \<not> P (xs ! j)"
proof (induction xs arbitrary: i)
  case Nil
  then show ?case by simp
next
  case (Cons x xs)
  show ?case
  proof (cases "P x")
    case True
    with Cons.prems show ?thesis by simp
  next
    case False
    with Cons.prems obtain k where k: "findIndex P xs = Some k" "i = Suc k" by auto
    from Cons.IH[OF k(1)] False k(2) show ?thesis
      by (auto simp: nth_Cons split: nat.splits)
  qed
qed

lemma findIndex_present:
  "\<exists>x\<in>set xs. P x \<Longrightarrow> \<exists>i. findIndex P xs = Some i"
  using findIndex_None[of P xs] by (cases "findIndex P xs") auto


text \<open>
  Claim C9. When both ids occur in the list, \<open>handleReorderLayers\<close> puts the dragged layer
  at the index the target had, keeps the multiset of layer ids and the length, and gives
  every layer its array index as \<open>zIndex\<close>; when one of the ids does not occur, the list
  comes back unchanged. The indices are those of the first layer with the id, as
  \<open>findIndex\<close> finds them.
\<close>

theorem handleReorderLayers_moves_and_renumbers:
  "(draggedId \<in> l_id ` set prev \<and> targetId \<in> l_id ` set prev \<longrightarrow>
      (\<exists>d t. findIndex (\<lambda>layer. l_id layer = draggedId) prev = Some d
           \<and> findIndex (\<lambda>layer. l_id layer = targetId) prev = Some t
           \<and> t < length prev \<and> l_id (prev ! t) = targetId
           \<and> (\<forall>j<t. l_id (prev ! j) \<noteq> targetId)
           \<and> handleReorderLayers draggedId targetId prev ! t = (prev ! d)\<lparr>zIndex := of_nat t\<rparr>
           \<and> l_id (handleReorderLayers draggedId targetId prev ! t) = draggedId)
      \<and> length (handleReorderLayers draggedId targetId prev) = length prev
      \<and> mset (map l_id (handleReorderLayers draggedId targetId prev)) = mset (map l_id prev)
      \<and> (\<forall>i<length prev. zIndex (handleReorderLayers draggedId targetId prev ! i) = of_nat i))
 \<and> (draggedId \<notin> l_id ` set prev \<or> targetId \<notin> l_id ` set prev \<longrightarrow>
      handleReorderLayers draggedId targetId prev = prev)"
proof (intro conjI impI)
  assume "draggedId \<in> l_id ` set prev \<and> targetId \<in> l_id ` set prev"
  then have "\<exists>x\<in>set prev. l_id x = draggedId" "\<exists>x\<in>set prev. l_id x = targetId"
    by auto
  then obtain d t where d: "findIndex (\<lambda>layer. l_id layer = draggedId) prev = Some d"
      and t: "findIndex (\<lambda>layer. l_id layer = targetId) prev = Some t"
    using findIndex_present[of prev "\<lambda>layer. l_id layer = draggedId"]
          findIndex_present[of prev "\<lambda>layer. l_id layer = targetId"] by auto
  note r = reorder_present[OF d t]
  have tt: "t < length prev \<and> l_id (prev ! t) = targetId"
    using findIndex_Some[OF t] by simp
  have first: "\<forall>j<t. l_id (prev ! j) \<noteq> targetId"
    using findIndex_first[OF t] by simp
  show "\<exists>d t. findIndex (\<lambda>layer. l_id layer = draggedId) prev = Some d
           \<and> findIndex (\<lambda>layer. l_id layer = targetId) prev = Some t
           \<and> t < length prev \<and> l_id (prev ! t) = targetId
           \<and> (\<forall>j<t. l_id (prev ! j) \<noteq> targetId)
           \<and> handleReorderLayers draggedId targetId prev ! t = (prev ! d)\<lparr>zIndex := of_nat t\<rparr>
           \<and> l_id (handleReorderLayers draggedId targetId prev ! t) = draggedId"
    using d t tt first r by blast
  show "length (handleReorderLayers draggedId targetId prev) = length prev"
    using r by blast
  show "mset (map l_id (handleReorderLayers draggedId targetId prev)) = mset (map l_id prev)"
    using r by blast
  show "\<forall>i<length prev. zIndex (handleReorderLayers draggedId targetId prev ! i) = of_nat i"
    using r by blast
next
  assume "draggedId \<notin> l_id ` set prev \<or> targetId \<notin> l_id ` set prev"
  then have "findIndex (\<lambda>layer. l_id layer = draggedId) prev = None
           \<or> findIndex (\<lambda>layer. l_id layer = targetId) prev = None"
    by (auto simp: findIndex_None)
  then show "handleReorderLayers draggedId targetId prev = prev"
    by (auto simp: handleReorderLayers_def split: option.splits)
qed


theorem handleReorderLayers_witness:
  "''c'' \<in> l_id ` set ex_layers \<and> ''a'' \<in> l_id ` set ex_layers
   \<and> map l_id (handleReorderLayers ''c'' ''a'' ex_layers) = [''c'', ''a'', ''b'']
   \<and> map zIndex (handleReorderLayers ''c'' ''a'' ex_layers) = [0, 1, 2]
   \<and> ''z'' \<notin> l_id ` set ex_layers
   \<and> handleReorderLayers ''z'' ''a'' ex_layers = ex_layers"
  using handleReorderLayers_moves_and_renumbers[of "''c''" ex_layers "''a''"]
        handleReorderLayers_moves_and_renumbers[of "''z''" ex_layers "''a''"]
  by (simp add: handleReorderLayers_def ex_layers_def splice_remove_def splice_insert_def renumber_def)





lemma filter_neq_distinct_nth:
  "distinct (map f xs) \<Longrightarrow> k < length xs \<Longrightarrow>
   filter (\<lambda>x. f x \<noteq> f (xs ! k)) xs = take k xs @ drop (Suc k) xs"
proof (induction xs arbitrary: k)
  case Nil
  then show ?case by simp
next
  case (Cons x xs)
  show ?case
  proof (cases k)
    case 0
    have "\<forall>y\<in>set xs. f y \<noteq> f x" using Cons.prems(1) by (auto simp: image_iff)
    then have "filter (\<lambda>y. f y \<noteq> f x) xs = xs" by (simp add: filter_id_conv)
    with 0 show ?thesis by simp
  next
    case (Suc j)
    then have j: "j < length xs" using Cons.prems(2) by simp
    then have "xs ! j \<in> set xs" by simp
    then have "f (xs ! j) \<in> f ` set xs" by (rule imageI)
    moreover have "f x \<notin> f ` set xs" using Cons.prems(1) by simp
    ultimately have "f (xs ! j) \<noteq> f x" by metis
    have "filter (\<lambda>y. f y \<noteq> f (xs ! j)) xs = take j xs @ drop (Suc j) xs"
      using Cons.IH[OF _ j] Cons.prems(1) by simp
    with \<open>f (xs ! j) \<noteq> f x\<close> show ?thesis using Suc by auto
  qed
qed

text \<open>
  Claim C10, as amended. \<open>handleDeleteLayer\<close> changes nothing when the list has at most
  one layer; with two or more layers the new list is the old one without the layers of the
  given id, which for distinct ids is the old list with exactly that one layer taken out
  (or the old list, when no layer has the id). A non-empty list of layers with distinct
  ids is therefore never emptied.
\<close>

theorem handleDeleteLayer_keeps_last_layer:
  "(length (layers st) \<le> 1 \<longrightarrow> handleDeleteLayer i st = st)
 \<and> (2 \<le> length (layers st) \<longrightarrow>
       layers (handleDeleteLayer i st) = filter (\<lambda>layer. l_id layer \<noteq> i) (layers st))
 \<and> (2 \<le> length (layers st) \<and> distinct (map l_id (layers st)) \<longrightarrow>
       (\<forall>k<length (layers st). l_id (layers st ! k) = i \<longrightarrow>
          layers (handleDeleteLayer i st) = take k (layers st) @ drop (Suc k) (layers st))
     \<and> (i \<notin> l_id ` set (layers st) \<longrightarrow> layers (handleDeleteLayer i st) = layers st))
 \<and> (layers st \<noteq> [] \<and> distinct (map l_id (layers st)) \<longrightarrow> layers (handleDeleteLayer i st) \<noteq> [])"
proof (intro conjI impI allI)
  assume "length (layers st) \<le> 1"
  then show "handleDeleteLayer i st = st" by (simp add: handleDeleteLayer_def)
next
  assume "2 \<le> length (layers st)"
  then show "layers (handleDeleteLayer i st) = filter (\<lambda>layer. l_id layer \<noteq> i) (layers st)"
    by (simp add: handleDeleteLayer_def)
next
  fix k
  assume a: "2 \<le> length (layers st) \<and> distinct (map l_id (layers st))"
     and k: "k < length (layers st)" and ki: "l_id (layers st ! k) = i"
  have "layers (handleDeleteLayer i st) = filter (\<lambda>layer. l_id layer \<noteq> i) (layers st)"
    using a by (simp add: handleDeleteLayer_def)
  also have "\<dots> = take k (layers st) @ drop (Suc k) (layers st)"
    using filter_neq_distinct_nth[of l_id "layers st" k] a k ki by simp
  finally show "layers (handleDeleteLayer i st) = take k (layers st) @ drop (Suc k) (layers st)" .
next
  assume a: "2 \<le> length (layers st) \<and> distinct (map l_id (layers st))"
     and n: "i \<notin> l_id ` set (layers st)"
  have "layers (handleDeleteLayer i st) = filter (\<lambda>layer. l_id layer \<noteq> i) (layers st)"
    using a by (simp add: handleDeleteLayer_def)
  also have "\<dots> = layers st" using n by (auto simp: filter_id_conv)
  finally show "layers (handleDeleteLayer i st) = layers st" .
next
  assume a: "layers st \<noteq> [] \<and> distinct (map l_id (layers st))"
  show "layers (handleDeleteLayer i st) \<noteq> []"
  proof (cases "length (layers st) \<le> 1")
    case True
    then show ?thesis using a by (simp add: handleDeleteLayer_def)
  next
    case False
    then obtain x y zs where xs: "layers st = x # y # zs"
      by (cases "layers st"; cases "tl (layers st)") auto
    then have "l_id x \<noteq> l_id y" using a by auto
    then have "l_id x \<noteq> i \<or> l_id y \<noteq> i" by auto
    then show ?thesis using xs by (auto simp: handleDeleteLayer_def)
  qed
qed

theorem handleDeleteLayer_witness:
  "length (layers (ex_editor [ex_layers ! 0] (Some ''a''))) \<le> 1
 \<and> handleDeleteLayer ''a'' (ex_editor [ex_layers ! 0] (Some ''a''))
      = ex_editor [ex_layers ! 0] (Some ''a'')
 \<and> 2 \<le> length (layers (ex_editor ex_layers (Some ''b'')))
 \<and> distinct (map l_id (layers (ex_editor ex_layers (Some ''b''))))
 \<and> (1::nat) < length ex_layers \<and> l_id (ex_layers ! 1) = ''b''
 \<and> handleDeleteLayer ''b'' (ex_editor ex_layers (Some ''b''))
      = ex_editor [ex_layers ! 0, ex_layers ! 2] (Some ''a'')"
  using handleDeleteLayer_keeps_last_layer [of "ex_editor [ex_layers ! 0] (Some ''a'')" "''a''"]
        handleDeleteLayer_keeps_last_layer [of "ex_editor ex_layers (Some ''b'')" "''b''"]
  by (simp add: handleDeleteLayer_def ex_layers_def ex_editor_def)

text \<open>
  Claim C10 as stated fails where ids repeat: of two layers with the same id the delete
  removes both and leaves the empty list.
\<close>

theorem handleDeleteLayer_duplicates_counterexample:
  "layers (ex_editor ex_duplicate_layers (Some ''a'')) \<noteq> []
 \<and> length (layers (ex_editor ex_duplicate_layers (Some ''a''))) = 2
 \<and> layers (handleDeleteLayer ''a'' (ex_editor ex_duplicate_layers (Some ''a''))) = []"
  by (simp add: handleDeleteLayer_def ex_editor_def ex_duplicate_layers_def)

section \<open>Properties of the runtime model conversion\<close>

lemma js_insert_key:
  "js_insert (\<lambda>a b. key a - key b) x ys = insort_key key x ys"
  by (induction ys) auto

lemma js_sort_key: "js_sort (\<lambda>a b. key a - key b) xs = sort_key key xs"
  by (induction xs) (auto simp: js_sort_def js_insert_key)

lemma js_insert_z_index:
  "z_index x \<noteq> None \<Longrightarrow> \<forall>y\<in>set ys. z_index y \<noteq> None \<Longrightarrow>
   js_insert compare_z_index x ys = insort_key (\<lambda>l. the (z_index l)) x ys"
  by (induction ys) (auto simp: compare_z_index_def)

lemma js_sort_z_index:
  "\<forall>x\<in>set xs. z_index x \<noteq> None \<Longrightarrow>
   js_sort compare_z_index xs = sort_key (\<lambda>l. the (z_index l)) xs"
proof (induction xs)
  case Nil
  then show ?case by (simp add: js_sort_def)
next
  case (Cons x xs)
  then have ih: "js_sort compare_z_index xs = sort_key (\<lambda>l. the (z_index l)) xs" by simp
  have "\<forall>y\<in>set (sort_key (\<lambda>l. the (z_index l)) xs). z_index y \<noteq> None"
    using Cons.prems by simp
  then have "js_insert compare_z_index x (sort_key (\<lambda>l. the (z_index l)) xs)
           = insort_key (\<lambda>l. the (z_index l)) x (sort_key (\<lambda>l. the (z_index l)) xs)"
    using Cons.prems by (intro js_insert_z_index) auto
  then show ?case using ih by (simp add: js_sort_def)
qed

lemma map_enumerate_id:
  "\<forall>x\<in>set xs. \<forall>i. f i x = x \<Longrightarrow> map (\<lambda>(i, x). f i x) (enumerate n xs) = xs"
  by (induction xs arbitrary: n) auto

lemma roundtrip_valid_layer:
  assumes "valid_project_layer layer"
  shows "\<lparr>pl_id = (if pl_id layer \<noteq> [] then pl_id layer else d1),
          pl_name = (if pl_name layer \<noteq> [] then pl_name layer else d2),
          pl_file_path = (if pl_file_path layer \<noteq> [] then pl_file_path layer else d3),
          pl_width = (if pl_width layer > 0 then pl_width layer else 1920),
          pl_height = (if pl_height layer > 0 then pl_height layer else 1080),
          is_visible = Some (case is_visible layer of Some b \<Rightarrow> b | None \<Rightarrow> True),
          z_index = Some (case z_index layer of Some z \<Rightarrow> z | None \<Rightarrow> d4)\<rparr> = layer"
  using assms by (cases layer) (auto simp: valid_project_layer_def)

lemma map_throwing_Inr:
  "\<forall>x\<in>set xs. f x = Inr (g x) \<Longrightarrow> map_throwing f xs = Inr (map g xs)"
  by (induction xs) auto

lemma convertFilePathToSrc_asset:
  "resolves_to_asset env dir filePath \<Longrightarrow>
   convertFilePathToSrc env filePath width height dir
     = Inr (''/project-assets/'' @ last_segment filePath)"
  by (auto simp: resolves_to_asset_def convertFilePathToSrc_def split: if_splits)

lemma set_enumerate_snd: "x \<in> set (enumerate n xs) \<Longrightarrow> snd x \<in> set xs"
  by (cases x) (auto simp: in_set_enumerate_eq)

lemma roundtrip_is_sort:
  assumes "\<forall>l\<in>set L. valid_project_layer l"
      and "\<forall>l\<in>set L. resolves_to_asset env dir (pl_file_path l)"
  shows "project_round_trip env L dir = Inr (sort_key (\<lambda>l. the (z_index l)) L)"
proof -
  have z: "\<forall>x\<in>set L. z_index x \<noteq> None"
    using assms(1) by (simp add: valid_project_layer_def)
  let ?S = "sort_key (\<lambda>l. the (z_index l)) L"
  let ?g = "\<lambda>(index, layer).
          \<lparr>l_id = (if pl_id layer \<noteq> [] then pl_id layer else ''layer-'' @ string_of_nat index),
           l_name = (if pl_name layer \<noteq> [] then pl_name layer
                     else ''Layer '' @ string_of_nat (index + 1)),
           l_src = ''/project-assets/'' @ last_segment (pl_file_path layer),
           l_file_path = (if pl_file_path layer \<noteq> [] then pl_file_path layer
                          else ''./assets/layer_'' @ string_of_nat (index + 1) @ ''.png''),
           l_width = (if pl_width layer > 0 then pl_width layer else 1920),
           l_height = (if pl_height layer > 0 then pl_height layer else 1080),
           isVisible = (case is_visible layer of Some b \<Rightarrow> b | None \<Rightarrow> True),
           zIndex = (case z_index layer of Some z \<Rightarrow> z | None \<Rightarrow> of_nat index)\<rparr>"
  have v: "\<forall>x\<in>set ?S. valid_project_layer x" using assms(1) by simp
  have r: "\<forall>x\<in>set ?S. resolves_to_asset env dir (pl_file_path x)" using assms(2) by simp
  have "\<forall>x\<in>set (enumerate 0 ?S).
          (\<lambda>(index, layer). convert_layer env dir index layer) x = Inr (?g x)"
  proof
    fix x assume "x \<in> set (enumerate 0 ?S)"
    then have "resolves_to_asset env dir (pl_file_path (snd x))"
      using r set_enumerate_snd by blast
    then show "(\<lambda>(index, layer). convert_layer env dir index layer) x = Inr (?g x)"
      by (cases x) (simp add: convert_layer_def convertFilePathToSrc_asset Let_def)
  qed
  then have "convertProjectLayersToRuntimeLayers env L dir = Inr (map ?g (enumerate 0 ?S))"
    unfolding convertProjectLayersToRuntimeLayers_def js_sort_z_index[OF z]
    by (rule map_throwing_Inr)
  then have "project_round_trip env L dir
      = Inr (map (\<lambda>(index, layer).
          \<lparr>pl_id = (if pl_id layer \<noteq> [] then pl_id layer else ''layer-'' @ string_of_nat index),
           pl_name = (if pl_name layer \<noteq> [] then pl_name layer
                      else ''Layer '' @ string_of_nat (index + 1)),
           pl_file_path = (if pl_file_path layer \<noteq> [] then pl_file_path layer
                           else ''./assets/layer_'' @ string_of_nat (index + 1) @ ''.png''),
           pl_width = (if pl_width layer > 0 then pl_width layer else 1920),
           pl_height = (if pl_height layer > 0 then pl_height layer else 1080),
           is_visible = Some (case is_visible layer of Some b \<Rightarrow> b | None \<Rightarrow> True),
           z_index = Some (case z_index layer of Some z \<Rightarrow> z | None \<Rightarrow> of_nat index)\<rparr>)
         (enumerate 0 ?S))"
    unfolding project_round_trip_def convertRuntimeLayersToProjectLayers_def
    by (simp add: case_prod_unfold comp_def)
  also have "map (\<lambda>(index, layer).
          \<lparr>pl_id = (if pl_id layer \<noteq> [] then pl_id layer else ''layer-'' @ string_of_nat index),
           pl_name = (if pl_name layer \<noteq> [] then pl_name layer
                      else ''Layer '' @ string_of_nat (index + 1)),
           pl_file_path = (if pl_file_path layer \<noteq> [] then pl_file_path layer
                           else ''./assets/layer_'' @ string_of_nat (index + 1) @ ''.png''),
           pl_width = (if pl_width layer > 0 then pl_width layer else 1920),
           pl_height = (if pl_height layer > 0 then pl_height layer else 1080),
           is_visible = Some (case is_visible layer of Some b \<Rightarrow> b | None \<Rightarrow> True),
           z_index = Some (case z_index layer of Some z \<Rightarrow> z | None \<Rightarrow> of_nat index)\<rparr>)
         (enumerate 0 ?S) = ?S"
    by (rule map_enumerate_id) (use v roundtrip_valid_layer in blast)
  finally show ?thesis .
qed

lemma latin1_placeholder_svg:
  "latin1 (placeholder_svg env text width height) \<Longrightarrow> latin1 text"
  by (simp add: latin1_def placeholder_svg_def)

text \<open>
  Outside the asset folder a file name with a character above \<open>U+00FF\<close> reaches \<open>btoa\<close>
  in the placeholder and the conversion throws, on every platform, for a valid layer.
\<close>

lemma round_trip_throws_on_wide_character:
  "valid_project_layer ex_unicode_layer
 \<and> project_round_trip env [ex_unicode_layer] None = Inl InvalidCharacterError"
proof -
  have p: "pl_file_path ex_unicode_layer = ''./img/'' @ [CHR 0xE5, CHR 0xB1, CHR 0x82] @ ''.png''"
    by (simp add: ex_unicode_layer_def)
  have i: "\<not> string_includes (pl_file_path ex_unicode_layer) ''assets/''"
    unfolding p by simp
  have s: "strip_image_extension (last_segment (pl_file_path ex_unicode_layer))
             = [CHR 0xE5, CHR 0xB1, CHR 0x82]"
    unfolding p by (simp add: last_segment_def strip_image_extension_def ends_with_def
                      ascii_lower_def)
  have "\<not> latin1 [CHR 0xE5, CHR 0xB1, CHR 0x82]" by (simp add: latin1_def)
  then have "\<not> latin1 (placeholder_svg env [CHR 0xE5, CHR 0xB1, CHR 0x82] w h)" for w h
    using latin1_placeholder_svg by blast
  then have c: "createPlaceholder env [CHR 0xE5, CHR 0xB1, CHR 0x82] w h
                  = Inl InvalidCharacterError" for w h
    by (simp add: createPlaceholder_def btoa_def)
  have f: "convertFilePathToSrc env (pl_file_path ex_unicode_layer) w h None
             = Inl InvalidCharacterError" for w h
  proof -
    have "pl_file_path ex_unicode_layer \<noteq> []" unfolding p by simp
    with i show ?thesis by (simp add: convertFilePathToSrc_def s c)
  qed
  have "valid_project_layer ex_unicode_layer"
    by (simp add: valid_project_layer_def ex_unicode_layer_def)
  moreover have "project_round_trip env [ex_unicode_layer] None = Inl InvalidCharacterError"
    by (simp add: project_round_trip_def convertProjectLayersToRuntimeLayers_def js_sort_def
          convert_layer_def f Let_def)
  ultimately show ?thesis by simp
qed

text \<open>
  Claim C2, as amended. Let every layer of the list be valid and let the asset resolution
  be the identity: \<open>convertFilePathToSrc\<close> resolves every file path to the asset of its
  file name and substitutes no placeholder. Then the round trip through the runtime layers
  returns the list sorted by \<open>z_index\<close>, as the sort of the converter leaves it: it has
  the same layers with all their fields, each as often as before; it is in ascending
  order of \<open>z_index\<close>, layers of equal \<open>z_index\<close> in their old order; and it is the
  list itself exactly when the list was in ascending order of \<open>z_index\<close>.
\<close>

theorem round_trip_sorts_by_z_index:
  assumes "list_all valid_project_layer L"
      and "list_all (\<lambda>layer. resolves_to_asset env dir (pl_file_path layer)) L"
  shows "project_round_trip env L dir = Inr (js_sort compare_z_index L)
       \<and> mset (js_sort compare_z_index L) = mset L
       \<and> sorted (map (\<lambda>l. the (z_index l)) (js_sort compare_z_index L))
       \<and> (\<forall>k. filter (\<lambda>l. z_index l = Some k) (js_sort compare_z_index L)
               = filter (\<lambda>l. z_index l = Some k) L)
       \<and> (project_round_trip env L dir = Inr L \<longleftrightarrow> sorted (map (\<lambda>l. the (z_index l)) L))"
proof -
  let ?key = "\<lambda>l. the (z_index l)"
  have v: "\<forall>l\<in>set L. valid_project_layer l" using assms(1) by (simp add: list_all_iff)
  have r: "\<forall>l\<in>set L. resolves_to_asset env dir (pl_file_path l)"
    using assms(2) by (simp add: list_all_iff)
  from v have z: "\<forall>x\<in>set L. z_index x \<noteq> None" by (simp add: valid_project_layer_def)
  have js: "js_sort compare_z_index L = sort_key ?key L" by (rule js_sort_z_index[OF z])
  have rt: "project_round_trip env L dir = Inr (sort_key ?key L)"
    using v r by (rule roundtrip_is_sort)
  have a: "project_round_trip env L dir = Inr (js_sort compare_z_index L)"
    by (simp add: rt js)
  have b: "mset (js_sort compare_z_index L) = mset L" by (simp add: js)
  have c: "sorted (map ?key (js_sort compare_z_index L))" by (simp add: js)
  have d: "filter (\<lambda>l. z_index l = Some k) (js_sort compare_z_index L)
         = filter (\<lambda>l. z_index l = Some k) L" for k
  proof -
    have "filter (\<lambda>l. ?key l = k) (sort_key ?key L) = filter (\<lambda>l. ?key l = k) L"
      by (rule sort_key_stable)
    moreover have "filter (\<lambda>l. ?key l = k) (sort_key ?key L)
                 = filter (\<lambda>l. z_index l = Some k) (sort_key ?key L)"
      by (rule filter_cong) (use z in auto)
    moreover have "filter (\<lambda>l. ?key l = k) L = filter (\<lambda>l. z_index l = Some k) L"
      by (rule filter_cong) (use z in auto)
    ultimately show ?thesis by (simp add: js)
  qed
  have e: "project_round_trip env L dir = Inr L \<longleftrightarrow> sorted (map ?key L)"
  proof
    assume "project_round_trip env L dir = Inr L"
    then have "sort_key ?key L = L" by (simp add: rt)
    then have "sorted (map ?key (sort_key ?key L)) = sorted (map ?key L)" by simp
    then show "sorted (map ?key L)" by simp
  next
    assume "sorted (map ?key L)"
    then show "project_round_trip env L dir = Inr L" by (simp add: rt sort_key_id_if_sorted)
  qed
  show ?thesis using a b c d e by blast
qed

theorem round_trip_witness:
  "list_all valid_project_layer ex_project_layers
 \<and> list_all (\<lambda>layer. resolves_to_asset browser_loader None (pl_file_path layer))
      ex_project_layers
 \<and> project_round_trip browser_loader ex_project_layers None = Inr (rev ex_project_layers)
 \<and> list_all valid_project_layer (rev ex_project_layers)
 \<and> list_all (\<lambda>layer. resolves_to_asset browser_loader None (pl_file_path layer))
      (rev ex_project_layers)
 \<and> project_round_trip browser_loader (rev ex_project_layers) None
     = Inr (rev ex_project_layers)"
  using round_trip_sorts_by_z_index [of ex_project_layers browser_loader None]
        round_trip_sorts_by_z_index [of "rev ex_project_layers" browser_loader None]
  by (simp add: ex_project_layers_def valid_project_layer_def resolves_to_asset_def
        last_segment_def browser_loader_def js_sort_def compare_z_index_def)

text \<open>
  Claim C2 as stated fails: both example layers are valid and their file paths resolve to
  their assets, no placeholder being substituted; the layer with \<open>z_index\<close> 1 comes
  first in the file, and the round trip puts it last.
\<close>

theorem round_trip_reorders_counterexample:
  "list_all valid_project_layer ex_project_layers
 \<and> list_all (\<lambda>layer. resolves_to_asset browser_loader None (pl_file_path layer))
      ex_project_layers
 \<and> map_sum id (map l_src) (convertProjectLayersToRuntimeLayers browser_loader ex_project_layers None)
     = Inr [''/project-assets/base.png'', ''/project-assets/top.png'']
 \<and> project_round_trip browser_loader ex_project_layers None
     = Inr [ex_project_layers ! 1, ex_project_layers ! 0]
 \<and> project_round_trip browser_loader ex_project_layers None \<noteq> Inr ex_project_layers"
  by (simp add: ex_project_layers_def valid_project_layer_def resolves_to_asset_def
        last_segment_def browser_loader_def project_round_trip_def
        convertRuntimeLayersToProjectLayers_def convertProjectLayersToRuntimeLayers_def
        convert_layer_def convertFilePathToSrc_def js_sort_def compare_z_index_def)

section \<open>Properties of the project validation\<close>

lemma truthy_iff:
  "truthy x \<longleftrightarrow> (\<exists>v. x = Some v \<and> v \<noteq> JNull \<and> v \<noteq> JBool False \<and> v \<noteq> JNum 0 \<and> v \<noteq> JStr [])"
  by (cases x rule: truthy.cases) auto

lemma typeof_number_iff: "typeof_number x \<longleftrightarrow> (\<exists>n. x = Some (JNum n))"
  by (cases x rule: typeof_number.cases) auto

lemma isArray_iff: "isArray x \<longleftrightarrow> (\<exists>xs. x = Some (JArr xs))"
  by (cases x rule: isArray.cases) auto

lemma version_present_truthy: "version_present p = truthy (property p ''version'')"
  by (auto simp: version_present_def truthy_iff split: option.splits)

lemma layers_is_sequence_isArray: "layers_is_sequence p = isArray (property p ''layers'')"
  by (auto simp: layers_is_sequence_def isArray_iff split: option.splits json.splits)

lemma presets_is_sequence_isArray: "presets_is_sequence p = isArray (property p ''presets'')"
  by (auto simp: presets_is_sequence_def isArray_iff split: option.splits json.splits)

lemma canvas_dims_None:
  "canvas_dims p = None \<longleftrightarrow>
     (case property p ''canvas'' of
        None \<Rightarrow> True
      | Some c \<Rightarrow> \<not> truthy (Some c) \<or> \<not> typeof_number (property c ''width'')
                  \<or> \<not> typeof_number (property c ''height''))"
proof (cases "property p ''canvas''")
  case None
  then show ?thesis by (simp add: canvas_dims_def)
next
  case (Some c)
  show ?thesis
  proof (cases c)
    case (JObj kvs)
    then show ?thesis using Some
      by (auto simp: canvas_dims_def typeof_number_iff split: option.splits json.splits)
  qed (use Some in \<open>auto simp: canvas_dims_def\<close>)
qed

lemma canvas_dims_Some:
  "canvas_dims p = Some (w, h) \<Longrightarrow>
   \<exists>c. property p ''canvas'' = Some c \<and> num_of (property c ''width'') = w
       \<and> num_of (property c ''height'') = h"
  by (auto simp: canvas_dims_def split: option.splits json.splits)

lemma validate_project_first_violation:
  "validate_project p =
     (if p = JNull then Inl TypeError
      else (case first_violation specified_checks p of Some err \<Rightarrow> Inl err | None \<Rightarrow> Inr p))"
proof (cases "canvas_dims p")
  case None
  then show ?thesis
    using canvas_dims_None[of p]
    by (auto simp: validate_project_def specified_checks_def version_present_truthy
          canvas_numeric_def split: option.splits)
next
  case (Some wh)
  obtain w h where wh: "wh = (w, h)" by (cases wh)
  from Some wh obtain c where c: "property p ''canvas'' = Some c"
      "num_of (property c ''width'') = w" "num_of (property c ''height'') = h"
    using canvas_dims_Some by blast
  have ok: "truthy (Some c)" "typeof_number (property c ''width'')"
      "typeof_number (property c ''height'')"
    using canvas_dims_None[of p] Some c(1) by auto
  show ?thesis
    using Some wh c ok
    by (auto simp: validate_project_def specified_checks_def version_present_truthy
          canvas_numeric_def layers_is_sequence_isArray presets_is_sequence_isArray
          canvas_positive_def canvas_within_limit_def)
qed

lemma loadProjectFile_width_zero: "loadProjectFile (Parsed (project_with_canvas 0 1080)) = Inl NonPositiveCanvas"
  by (simp add: loadProjectFile_def validate_project_def project_with_canvas_def)

lemma loadProjectFile_width_60000: "loadProjectFile (Parsed (project_with_canvas 60000 1080)) = Inl CanvasTooLarge"
  by (simp add: loadProjectFile_def validate_project_def project_with_canvas_def)

lemma loadProjectFile_1920_1080: "loadProjectFile (Parsed (project_with_canvas 1920 1080)) = Inr (project_with_canvas 1920 1080)"
  by (simp add: loadProjectFile_def validate_project_def project_with_canvas_def)

text \<open>
  The validating \<open>loadProjectFile\<close> rejects a parsed project with the error of the first
  check it violates, in the order version, canvas, layers, presets, positive size, size
  limit, and resolves with the parsed project when it violates none.
\<close>

lemma loadProjectFile_checks_in_order:
  "loadProjectFile (Parsed project) =
     (if project = JNull then Inl TypeError
      else (case first_violation specified_checks project of
              Some err \<Rightarrow> Inl err
            | None \<Rightarrow> Inr project))
 \<and> (version_present project \<and> canvas_numeric project \<and> layers_is_sequence project
      \<and> presets_is_sequence project \<longrightarrow>
        (\<not> canvas_positive project \<longrightarrow> loadProjectFile (Parsed project) = Inl NonPositiveCanvas)
      \<and> (canvas_positive project \<and> \<not> canvas_within_limit project \<longrightarrow>
            loadProjectFile (Parsed project) = Inl CanvasTooLarge)
      \<and> (canvas_positive project \<and> canvas_within_limit project \<longrightarrow>
            loadProjectFile (Parsed project) = Inr project))
 \<and> loadProjectFile (Parsed (project_with_canvas 0 1080)) = Inl NonPositiveCanvas
 \<and> loadProjectFile (Parsed (project_with_canvas 60000 1080)) = Inl CanvasTooLarge
 \<and> loadProjectFile (Parsed (project_with_canvas 1920 1080)) = Inr (project_with_canvas 1920 1080)"
proof -
  have nn: "version_present project \<Longrightarrow> project \<noteq> JNull"
    by (auto simp: version_present_def)
  have a: "loadProjectFile (Parsed project) =
     (if project = JNull then Inl TypeError
      else (case first_violation specified_checks project of
              Some err \<Rightarrow> Inl err
            | None \<Rightarrow> Inr project))"
    by (simp add: loadProjectFile_def validate_project_first_violation)
  have b: "version_present project \<and> canvas_numeric project \<and> layers_is_sequence project
      \<and> presets_is_sequence project \<longrightarrow>
        (\<not> canvas_positive project \<longrightarrow> loadProjectFile (Parsed project) = Inl NonPositiveCanvas)
      \<and> (canvas_positive project \<and> \<not> canvas_within_limit project \<longrightarrow>
            loadProjectFile (Parsed project) = Inl CanvasTooLarge)
      \<and> (canvas_positive project \<and> canvas_within_limit project \<longrightarrow>
            loadProjectFile (Parsed project) = Inr project)"
    using nn by (auto simp: a specified_checks_def)
  show ?thesis
    using a b loadProjectFile_width_zero loadProjectFile_width_60000 loadProjectFile_1920_1080
    by blast
qed

lemma loadProjectFile_checks_example:
  "version_present (project_with_canvas 0 1080) \<and> canvas_numeric (project_with_canvas 0 1080)
 \<and> layers_is_sequence (project_with_canvas 0 1080) \<and> presets_is_sequence (project_with_canvas 0 1080)
 \<and> \<not> canvas_positive (project_with_canvas 0 1080)
 \<and> loadProjectFile (Parsed (project_with_canvas 0 1080)) = Inl NonPositiveCanvas
 \<and> canvas_positive (project_with_canvas 1920 1080)
 \<and> canvas_within_limit (project_with_canvas 1920 1080)
 \<and> loadProjectFile (Parsed (project_with_canvas 1920 1080)) = Inr (project_with_canvas 1920 1080)
 \<and> error_message NonPositiveCanvas
      = ''Failed to parse project file: Canvas dimensions must be positive''"
  using loadProjectFile_checks_in_order[of "project_with_canvas 0 1080"]
        loadProjectFile_checks_in_order[of "project_with_canvas 1920 1080"]
  by (simp add: project_with_canvas_def version_present_def canvas_numeric_def canvas_dims_def
        layers_is_sequence_def presets_is_sequence_def canvas_positive_def
        canvas_within_limit_def)

text \<open>
  Claim C3: loading a project validates it, failing with the error of the first violated
  check; a canvas width of 0 fails as non-positive, one of 60000 as too large, and a canvas
  of 1920 by 1080 loads. Evaluated: on a project file that is valid except for a canvas
  width of 0, or of 60000, the validating \<open>loadProjectFile\<close> fails with the error for a
  non-positive canvas, or for a canvas that is too large, and it loads the same file with
  a canvas of 1920 by 1080. The older \<open>loadProjectFile\<close> resolves with the projects of
  width 0 and 60000, and the open path of the native host hands these widths on to the
  page.
\<close>

theorem loaders_without_canvas_checks:
  "loadProjectFile_legacy (Parsed (project_with_canvas 0 1080)) = Inr (project_with_canvas 0 1080)
 \<and> loadProjectFile_legacy (Parsed (project_with_canvas 60000 1080))
      = Inr (project_with_canvas 60000 1080)
 \<and> loadTauriProject_canvas (Parsed (project_with_canvas 0 1080))
      = Inr (Some (JNum 0), Some (JNum 1080))
 \<and> loadTauriProject_canvas (Parsed (project_with_canvas 60000 1080))
      = Inr (Some (JNum 60000), Some (JNum 1080))
 \<and> loadProjectFile (Parsed (project_with_canvas 0 1080)) = Inl NonPositiveCanvas
 \<and> loadProjectFile (Parsed (project_with_canvas 60000 1080)) = Inl CanvasTooLarge
 \<and> loadProjectFile (Parsed (project_with_canvas 1920 1080))
      = Inr (project_with_canvas 1920 1080)"
  by (simp add: loadProjectFile_legacy_def loadTauriProject_canvas_def loadProjectFile_def
        validate_project_def project_with_canvas_def)

theorem loaders_without_canvas_checks_witness:
  "loadProjectFile_legacy (Parsed (project_with_canvas 0 1080)) \<noteq> Inl NonPositiveCanvas
 \<and> loadProjectFile_legacy (Parsed (project_with_canvas 60000 1080)) \<noteq> Inl CanvasTooLarge
 \<and> loadProjectFile (Parsed (project_with_canvas 0 1080)) = Inl NonPositiveCanvas
 \<and> loadProjectFile (Parsed (project_with_canvas 60000 1080)) = Inl CanvasTooLarge"
  using loaders_without_canvas_checks by simp

section \<open>Properties of the task manager\<close>

subsection \<open>The run of an export over its decode events\<close>

lemma loaded_indices_append:
  "loaded_indices (xs @ ys) = loaded_indices xs @ loaded_indices ys"
  by (induction xs rule: loaded_indices.induct) auto

lemma export_png_unfold:
  "context2d p \<Longrightarrow> visible_sorted (ctx_layers c) \<noteq> [] \<Longrightarrow>
   export_png dr p c filename evs =
     foldl (on_decode p dr filename (visible_sorted (ctx_layers c))) (export_start c) evs"
  by (simp add: export_png_def Let_def)

lemma on_decode_step:
  assumes "loadedImages r = k" and "k < length vis" and "downloads r = []"
      and "promise r = Pending" and "event_index e < length vis"
  shows "loadedImages (on_decode p dr f vis r e) = Suc k"
    and "ex_canvas (on_decode p dr f vis r e)
           = (ex_canvas r)\<lparr>cv_ops := cv_ops (ex_canvas r)
                                   @ map (\<lambda>i. dr (vis ! i)) (loaded_indices [e])\<rparr>"
    and "Suc k < length vis \<Longrightarrow>
           downloads (on_decode p dr f vis r e) = [] \<and> promise (on_decode p dr f vis r e) = Pending"
    and "Suc k = length vis \<Longrightarrow>
           downloads (on_decode p dr f vis r e)
             = [\<lparr>dl_canvas = ex_canvas (on_decode p dr f vis r e), dl_filename = f, dl_format = PNG\<rparr>]
         \<and> promise (on_decode p dr f vis r e)
             = (if download_returns p
                     \<lparr>dl_canvas = ex_canvas (on_decode p dr f vis r e), dl_filename = f,
                      dl_format = PNG\<rparr>
                then Resolved else Pending)"
  using assms by (cases e; simp add: on_decode_def checkComplete_def Let_def)+

lemma decode_run_invariant:
  assumes "\<forall>e\<in>set evs. event_index e < length vis" and "length evs \<le> length vis"
  shows "loadedImages (foldl (on_decode p dr f vis) (export_start c) evs) = length evs
       \<and> ex_canvas (foldl (on_decode p dr f vis) (export_start c) evs)
           = (blank_canvas c)\<lparr>cv_ops := map (\<lambda>i. dr (vis ! i)) (loaded_indices evs)\<rparr>
       \<and> (length evs < length vis \<longrightarrow>
             downloads (foldl (on_decode p dr f vis) (export_start c) evs) = []
           \<and> promise (foldl (on_decode p dr f vis) (export_start c) evs) = Pending)
       \<and> (length evs = length vis \<and> vis \<noteq> [] \<longrightarrow>
             downloads (foldl (on_decode p dr f vis) (export_start c) evs)
               = [\<lparr>dl_canvas = ex_canvas (foldl (on_decode p dr f vis) (export_start c) evs),
                   dl_filename = f, dl_format = PNG\<rparr>]
           \<and> promise (foldl (on_decode p dr f vis) (export_start c) evs)
               = (if download_returns p
                       \<lparr>dl_canvas = ex_canvas (foldl (on_decode p dr f vis) (export_start c) evs),
                        dl_filename = f, dl_format = PNG\<rparr>
                  then Resolved else Pending))"
  using assms
proof (induction evs rule: rev_induct)
  case Nil
  then show ?case by (simp add: export_start_def blank_canvas_def)
next
  case (snoc e evs)
  define r where "r = foldl (on_decode p dr f vis) (export_start c) evs"
  have lt: "length evs < length vis" using snoc.prems by simp
  have ih: "loadedImages r = length evs"
    "ex_canvas r = (blank_canvas c)\<lparr>cv_ops := map (\<lambda>i. dr (vis ! i)) (loaded_indices evs)\<rparr>"
    "downloads r = []" "promise r = Pending"
    using snoc.IH snoc.prems lt unfolding r_def by auto
  have e: "event_index e < length vis" using snoc.prems by simp
  have run: "foldl (on_decode p dr f vis) (export_start c) (evs @ [e]) = on_decode p dr f vis r e"
    by (simp add: r_def)
  note st = on_decode_step[OF ih(1) lt ih(3) ih(4) e, of p dr f]
  have a: "loadedImages (on_decode p dr f vis r e) = length (evs @ [e])"
    using st(1) by simp
  have b: "ex_canvas (on_decode p dr f vis r e)
         = (blank_canvas c)\<lparr>cv_ops := map (\<lambda>i. dr (vis ! i)) (loaded_indices (evs @ [e]))\<rparr>"
    using st(2) ih(2) by (simp add: loaded_indices_append)
  have c1: "length (evs @ [e]) < length vis \<longrightarrow>
         downloads (on_decode p dr f vis r e) = [] \<and> promise (on_decode p dr f vis r e) = Pending"
    using st(3) by simp
  have d: "length (evs @ [e]) = length vis \<and> vis \<noteq> [] \<longrightarrow>
         downloads (on_decode p dr f vis r e)
           = [\<lparr>dl_canvas = ex_canvas (on_decode p dr f vis r e), dl_filename = f, dl_format = PNG\<rparr>]
       \<and> promise (on_decode p dr f vis r e)
           = (if download_returns p
                   \<lparr>dl_canvas = ex_canvas (on_decode p dr f vis r e), dl_filename = f,
                    dl_format = PNG\<rparr>
              then Resolved else Pending)"
    using st(4) by simp
  show ?case unfolding run using a b c1 d by blast
qed

lemma settle_once_facts:
  assumes "mset (map event_index evs) = mset [0..<n]"
  shows "length evs = n" and "\<forall>e\<in>set evs. event_index e < n"
proof -
  have "size (mset (map event_index evs)) = size (mset [0..<n])" using assms by simp
  then show "length evs = n" by simp
  have "set (map event_index evs) = set [0..<n]" using assms by (rule mset_eq_setD)
  then show "\<forall>e\<in>set evs. event_index e < n" by auto
qed


lemma export_png_canvas:
  assumes "context2d p" and "visible_sorted (ctx_layers c) \<noteq> []"
      and "\<forall>e\<in>set evs. event_index e < length (visible_sorted (ctx_layers c))"
      and "length evs \<le> length (visible_sorted (ctx_layers c))"
  shows "ex_canvas (export_png dr p c f evs)
           = (blank_canvas c)\<lparr>cv_ops := map (\<lambda>i. dr (visible_sorted (ctx_layers c) ! i))
                                            (loaded_indices evs)\<rparr>"
  using decode_run_invariant[OF assms(3,4), of p dr f]
  by (simp add: export_png_unfold[OF assms(1,2)])

lemma layer_draw_layer: "d_layer (layer_draw c l) = l"
  by (simp add: layer_draw_def Let_def)

lemma layer_draw_web_layer: "d_layer (layer_draw_web c l) = l"
  by (simp add: layer_draw_web_def)

lemma ex_visible: "visible_sorted (ctx_layers ex_context) = [ex_layers ! 0, ex_layers ! 2]"
  by (simp add: visible_sorted_def ex_context_def ex_layers_def js_sort_def)

lemma export_png_joins:
  assumes ctx: "context2d p"
      and vis: "visible_sorted (ctx_layers c) \<noteq> []"
      and once: "mset (map event_index evs) = mset [0..<length (visible_sorted (ctx_layers c))]"
  shows "promise (export_png dr p c f evs)
           = (if download_returns p
                   \<lparr>dl_canvas = ex_canvas (export_png dr p c f evs), dl_filename = f,
                    dl_format = PNG\<rparr>
              then Resolved else Pending)"
    and "downloads (export_png dr p c f evs)
           = [\<lparr>dl_canvas = ex_canvas (export_png dr p c f evs), dl_filename = f,
               dl_format = PNG\<rparr>]"
    and "cv_ops (ex_canvas (export_png dr p c f evs))
           = map (\<lambda>i. dr (visible_sorted (ctx_layers c) ! i)) (loaded_indices evs)"
    and "\<forall>k<length evs.
           promise (export_png dr p c f (take k evs)) = Pending
         \<and> downloads (export_png dr p c f (take k evs)) = []"
proof -
  let ?vis = "visible_sorted (ctx_layers c)"
  note sf = settle_once_facts[OF once]
  have run: "export_png dr p c f es = foldl (on_decode p dr f ?vis) (export_start c) es"
    for es using ctx vis by (rule export_png_unfold)
  have full: "\<forall>e\<in>set evs. event_index e < length ?vis" "length evs \<le> length ?vis"
    using sf by auto
  note inv = decode_run_invariant[OF full, of p dr f c]
  show "promise (export_png dr p c f evs)
           = (if download_returns p
                   \<lparr>dl_canvas = ex_canvas (export_png dr p c f evs), dl_filename = f,
                    dl_format = PNG\<rparr>
              then Resolved else Pending)"
    and "downloads (export_png dr p c f evs)
           = [\<lparr>dl_canvas = ex_canvas (export_png dr p c f evs), dl_filename = f,
               dl_format = PNG\<rparr>]"
    using inv sf(1) vis unfolding run by auto
  show "cv_ops (ex_canvas (export_png dr p c f evs))
           = map (\<lambda>i. dr (?vis ! i)) (loaded_indices evs)"
    using inv unfolding run by (simp add: blank_canvas_def)
  show "\<forall>k<length evs.
           promise (export_png dr p c f (take k evs)) = Pending
         \<and> downloads (export_png dr p c f (take k evs)) = []"
  proof (intro allI impI)
    fix k assume k: "k < length evs"
    have 1: "\<forall>e\<in>set (take k evs). event_index e < length ?vis"
      using full(1) by (meson in_set_takeD)
    have 2: "length (take k evs) < length ?vis" using k sf(1) by simp
    then have 3: "length (take k evs) \<le> length ?vis" by simp
    show "promise (export_png dr p c f (take k evs)) = Pending
        \<and> downloads (export_png dr p c f (take k evs)) = []"
      using decode_run_invariant[OF 1 3, of p dr f c] 2 unfolding run by blast
  qed
qed

subsection \<open>Claim C5: failed decodes are skipped and the export joins all decodes\<close>

text \<open>
  Claim C5. In an export with at least one visible layer in which every image settles
  exactly once, by \<open>onload\<close> or by \<open>onerror\<close> and in any order, the canvas is handed to
  \<open>downloadCanvas\<close> exactly once and the promise resolves as soon as that call has
  returned; after any shorter prefix of the events nothing has been downloaded and the
  promise is pending. The layers whose decode failed are left out of the painted layers
  and nothing else changes: the promise resolves whichever decodes fail.
\<close>

theorem quick_export_joins_all_decodes:
  assumes ctx: "context2d p"
      and vis: "visible_sorted (ctx_layers c) \<noteq> []"
      and once: "mset (map event_index evs) = mset [0..<length (visible_sorted (ctx_layers c))]"
  shows "promise (handleQuickExportPNG p c f evs)
           = (if download_returns p
                   \<lparr>dl_canvas = ex_canvas (handleQuickExportPNG p c f evs), dl_filename = f,
                    dl_format = PNG\<rparr>
              then Resolved else Pending)
       \<and> downloads (handleQuickExportPNG p c f evs)
           = [\<lparr>dl_canvas = ex_canvas (handleQuickExportPNG p c f evs), dl_filename = f,
               dl_format = PNG\<rparr>]
       \<and> painted (handleQuickExportPNG p c f evs)
           = map (\<lambda>i. visible_sorted (ctx_layers c) ! i) (loaded_indices evs)
       \<and> (\<forall>k<length evs.
             promise (handleQuickExportPNG p c f (take k evs)) = Pending
           \<and> downloads (handleQuickExportPNG p c f (take k evs)) = [])
       \<and> ((\<forall>call. download_returns p call) \<longrightarrow>
             promise (handleQuickExportPNG p c f evs) = Resolved
           \<and> (\<forall>evs'. map event_index evs' = map event_index evs \<longrightarrow>
                 promise (handleQuickExportPNG p c f evs') = Resolved))"
proof -
  note j = export_png_joins[OF ctx vis once, of "layer_draw c" f]
  have a: "promise (handleQuickExportPNG p c f evs)
           = (if download_returns p
                   \<lparr>dl_canvas = ex_canvas (handleQuickExportPNG p c f evs), dl_filename = f,
                    dl_format = PNG\<rparr>
              then Resolved else Pending)"
    using j(1) by (simp add: handleQuickExportPNG_def)
  have b: "downloads (handleQuickExportPNG p c f evs)
           = [\<lparr>dl_canvas = ex_canvas (handleQuickExportPNG p c f evs), dl_filename = f,
               dl_format = PNG\<rparr>]"
    using j(2) by (simp add: handleQuickExportPNG_def)
  have pc: "painted (handleQuickExportPNG p c f evs)
           = map (\<lambda>i. visible_sorted (ctx_layers c) ! i) (loaded_indices evs)"
    using j(3) by (simp add: painted_def handleQuickExportPNG_def layer_draw_layer comp_def)
  have d: "\<forall>k<length evs.
             promise (handleQuickExportPNG p c f (take k evs)) = Pending
           \<and> downloads (handleQuickExportPNG p c f (take k evs)) = []"
    using j(4) by (simp add: handleQuickExportPNG_def)
  have e: "promise (handleQuickExportPNG p c f evs') = Resolved"
    if ret: "\<forall>call. download_returns p call" and same: "map event_index evs' = map event_index evs"
    for evs'
  proof -
    have "mset (map event_index evs') = mset [0..<length (visible_sorted (ctx_layers c))]"
      using once same by simp
    from export_png_joins(1)[OF ctx vis this, of "layer_draw c" f] ret
    show ?thesis by (simp add: handleQuickExportPNG_def)
  qed
  have e0: "(\<forall>call. download_returns p call) \<longrightarrow> promise (handleQuickExportPNG p c f evs) = Resolved"
    using a by simp
  show ?thesis using a b pc d e e0 by blast
qed

theorem quick_export_joins_witness:
  "context2d browser \<and> visible_sorted (ctx_layers ex_context) \<noteq> []
 \<and> mset (map event_index [Failed 1, Loaded 0])
      = mset [0..<length (visible_sorted (ctx_layers ex_context))]
 \<and> promise (handleQuickExportPNG browser ex_context ''canvas-export'' [Failed 1, Loaded 0]) = Resolved
 \<and> painted (handleQuickExportPNG browser ex_context ''canvas-export'' [Failed 1, Loaded 0])
      = [ex_layers ! 0]
 \<and> promise (handleQuickExportPNG browser ex_context ''canvas-export'' (take 1 [Failed 1, Loaded 0]))
      = Pending"
proof -
  have 1: "context2d browser" by (simp add: browser_def)
  have 2: "visible_sorted (ctx_layers ex_context) \<noteq> []" by (simp add: ex_visible)
  have 3: "mset (map event_index [Failed 1, Loaded 0])
         = mset [0..<length (visible_sorted (ctx_layers ex_context))]"
    by (simp add: ex_visible upt_rec)
  have 4: "\<forall>call. download_returns browser call" by (simp add: browser_def)
  note t = quick_export_joins_all_decodes[OF 1 2 3, of "''canvas-export''"]
  have 5: "promise (handleQuickExportPNG browser ex_context ''canvas-export'' [Failed 1, Loaded 0])
         = Resolved"
    using t 4 by blast
  have 6: "painted (handleQuickExportPNG browser ex_context ''canvas-export'' [Failed 1, Loaded 0])
         = [ex_layers ! 0]"
    using t by (simp add: ex_visible)
  have "\<forall>k<length [Failed 1, Loaded 0].
          promise (handleQuickExportPNG browser ex_context ''canvas-export''
                     (take k [Failed 1, Loaded 0])) = Pending"
    using t by blast
  then have 7: "promise (handleQuickExportPNG browser ex_context ''canvas-export''
                    (take 1 [Failed 1, Loaded 0])) = Pending"
    by (rule allE[of _ 1]) simp
  show ?thesis using 1 2 3 5 6 7 by blast
qed

subsection \<open>Claim C8: an export without visible layers\<close>

text \<open>
  Claim C8. When no layer is visible, \<open>handleQuickExportPNG\<close> hands \<open>downloadCanvas\<close> a
  canvas of exactly the canvas width and height on which nothing has been drawn, and
  its promise resolves when that call returns; no decode is started, so the decode events
  play no part.
\<close>

theorem quick_export_empty_is_blank:
  assumes "filter isVisible (ctx_layers c) = []" and "context2d p"
      and "download_returns p \<lparr>dl_canvas = blank_canvas c, dl_filename = f, dl_format = PNG\<rparr>"
  shows "handleQuickExportPNG p c f evs
           = \<lparr>ex_canvas = blank_canvas c, loadedImages = 0,
              downloads = [\<lparr>dl_canvas = blank_canvas c, dl_filename = f, dl_format = PNG\<rparr>],
              promise = Resolved\<rparr>
       \<and> cv_width (blank_canvas c) = canvasWidth c
       \<and> cv_height (blank_canvas c) = canvasHeight c
       \<and> cv_ops (blank_canvas c) = []"
  using assms
  by (simp add: handleQuickExportPNG_def export_png_def export_start_def visible_sorted_def
        js_sort_def blank_canvas_def Let_def)

theorem quick_export_empty_witness:
  "filter isVisible (ctx_layers (ex_context\<lparr>ctx_layers := [ex_layers ! 1]\<rparr>)) = []
 \<and> context2d browser
 \<and> promise (handleQuickExportPNG browser (ex_context\<lparr>ctx_layers := [ex_layers ! 1]\<rparr>)
              ''canvas-export'' []) = Resolved
 \<and> map dl_canvas (downloads (handleQuickExportPNG browser
                                 (ex_context\<lparr>ctx_layers := [ex_layers ! 1]\<rparr>) ''canvas-export'' []))
      = [\<lparr>cv_width = 100, cv_height = 100, cv_ops = []\<rparr>]"
proof -
  have 1: "filter isVisible (ctx_layers (ex_context\<lparr>ctx_layers := [ex_layers ! 1]\<rparr>)) = []"
    by (simp add: ex_layers_def)
  have 2: "context2d browser" by (simp add: browser_def)
  have 3: "download_returns browser
             \<lparr>dl_canvas = blank_canvas (ex_context\<lparr>ctx_layers := [ex_layers ! 1]\<rparr>),
              dl_filename = ''canvas-export'', dl_format = PNG\<rparr>"
    by (simp add: browser_def)
  show ?thesis
    using quick_export_empty_is_blank[OF 1 2 3, of "[]"] 1 2
    by (simp add: blank_canvas_def ex_context_def)
qed

subsection \<open>The destination rectangles\<close>

lemma set_visible_sorted: "set (visible_sorted ls) = {l \<in> set ls. isVisible l}"
  by (simp add: visible_sorted_def js_sort_key)

lemma checkComplete_canvas: "ex_canvas (checkComplete p f n r) = ex_canvas r"
  by (simp add: checkComplete_def Let_def)

lemma on_decode_ops:
  "set (cv_ops (ex_canvas (on_decode p dr f vis r e)))
     \<subseteq> set (cv_ops (ex_canvas r)) \<union> dr ` set vis"
  by (cases e) (auto simp: on_decode_def checkComplete_canvas)

lemma decode_run_ops:
  "set (cv_ops (ex_canvas (foldl (on_decode p dr f vis) r evs)))
     \<subseteq> set (cv_ops (ex_canvas r)) \<union> dr ` set vis"
proof (induction evs arbitrary: r)
  case Nil
  then show ?case by simp
next
  case (Cons e evs)
  have "set (cv_ops (ex_canvas (foldl (on_decode p dr f vis) (on_decode p dr f vis r e) evs)))
          \<subseteq> set (cv_ops (ex_canvas (on_decode p dr f vis r e))) \<union> dr ` set vis"
    by (rule Cons.IH)
  also have "\<dots> \<subseteq> set (cv_ops (ex_canvas r)) \<union> dr ` set vis"
    using on_decode_ops[of p dr f vis r e] by blast
  finally show ?case by simp
qed

lemma export_png_ops:
  "set (cv_ops (ex_canvas (export_png dr p c f evs)))
     \<subseteq> dr ` {l \<in> set (ctx_layers c). isVisible l}"
proof (cases "context2d p \<and> visible_sorted (ctx_layers c) \<noteq> []")
  case True
  then have "export_png dr p c f evs
           = foldl (on_decode p dr f (visible_sorted (ctx_layers c))) (export_start c) evs"
    by (simp add: export_png_unfold)
  then show ?thesis
    using decode_run_ops[of p dr f "visible_sorted (ctx_layers c)" "export_start c" evs]
    by (simp add: set_visible_sorted export_start_def blank_canvas_def)
next
  case False
  then show ?thesis by (auto simp: export_png_def export_start_def blank_canvas_def Let_def)
qed

lemma layer_draw_fit:
  fixes cw ch lw lh :: rat
  assumes "0 < lw" and "0 < lh"
  defines "s \<equiv> min (cw / lw) (ch / lh)"
  shows "(lw * s) * lh = (lh * s) * lw"
    and "lw * s \<le> cw" and "lh * s \<le> ch"
    and "lw * s = cw \<or> lh * s = ch"
    and "(cw - lw * s) / 2 + lw * s + (cw - lw * s) / 2 = cw"
    and "(ch - lh * s) / 2 + lh * s + (ch - lh * s) / 2 = ch"
    and "0 \<le> (cw - lw * s) / 2" and "0 \<le> (ch - lh * s) / 2"
proof -
  show "(lw * s) * lh = (lh * s) * lw" by (simp add: mult.commute mult.left_commute)
  have "s \<le> cw / lw" by (simp add: s_def)
  then show w: "lw * s \<le> cw" using assms(1) by (simp add: pos_le_divide_eq mult.commute)
  have "s \<le> ch / lh" by (simp add: s_def)
  then show h: "lh * s \<le> ch" using assms(2) by (simp add: pos_le_divide_eq mult.commute)
  have "s = cw / lw \<or> s = ch / lh" by (auto simp: s_def min_def)
  then show "lw * s = cw \<or> lh * s = ch" using assms by auto
  show "(cw - lw * s) / 2 + lw * s + (cw - lw * s) / 2 = cw" by (simp add: field_simps)
  show "(ch - lh * s) / 2 + lh * s + (ch - lh * s) / 2 = ch" by (simp add: field_simps)
  show "0 \<le> (cw - lw * s) / 2" using w by simp
  show "0 \<le> (ch - lh * s) / 2" using h by simp
qed


text \<open>
  In the host-aware task manager every rectangle drawn for a layer of positive size is
  the layer scaled by the smaller of the two quotients and centred on the canvas: it keeps
  the aspect ratio, lies within the canvas and touches two opposite edges.
\<close>

lemma quick_export_fits_and_centres:
  assumes d: "d \<in> set (cv_ops (ex_canvas (handleQuickExportPNG p c f evs)))"
      and pos: "0 < l_width (d_layer d)" "0 < l_height (d_layer d)"
  shows "d_layer d \<in> set (ctx_layers c) \<and> isVisible (d_layer d)
       \<and> d_width d = l_width (d_layer d)
                      * min (canvasWidth c / l_width (d_layer d))
                            (canvasHeight c / l_height (d_layer d))
       \<and> d_height d = l_height (d_layer d)
                       * min (canvasWidth c / l_width (d_layer d))
                             (canvasHeight c / l_height (d_layer d))
       \<and> d_x d = (canvasWidth c - d_width d) / 2
       \<and> d_y d = (canvasHeight c - d_height d) / 2
       \<and> d_width d * l_height (d_layer d) = d_height d * l_width (d_layer d)
       \<and> d_width d \<le> canvasWidth c \<and> d_height d \<le> canvasHeight c
       \<and> (d_width d = canvasWidth c \<or> d_height d = canvasHeight c)
       \<and> d_x d + d_width d + d_x d = canvasWidth c
       \<and> d_y d + d_height d + d_y d = canvasHeight c"
proof -
  from d obtain l where l: "l \<in> set (ctx_layers c)" "isVisible l" "d = layer_draw c l"
    using export_png_ops[of "layer_draw c" p c f evs] by (auto simp: handleQuickExportPNG_def)
  have dl: "d_layer d = l" using l(3) by (simp add: layer_draw_layer)
  have lp: "0 < l_width l" "0 < l_height l" using pos dl by simp_all
  note fit = layer_draw_fit[OF lp, where cw = "canvasWidth c" and ch = "canvasHeight c"]
  have w: "d_width d = l_width l * min (canvasWidth c / l_width l) (canvasHeight c / l_height l)"
    and h: "d_height d = l_height l * min (canvasWidth c / l_width l) (canvasHeight c / l_height l)"
    and x: "d_x d = (canvasWidth c - d_width d) / 2"
    and y: "d_y d = (canvasHeight c - d_height d) / 2"
    using l(3) by (simp_all add: layer_draw_def Let_def)
  show ?thesis
    unfolding dl
  proof (intro conjI)
    show "l \<in> set (ctx_layers c)" by (rule l(1))
    show "isVisible l" by (rule l(2))
    show "d_width d = l_width l * min (canvasWidth c / l_width l) (canvasHeight c / l_height l)"
      by (rule w)
    show "d_height d = l_height l * min (canvasWidth c / l_width l) (canvasHeight c / l_height l)"
      by (rule h)
    show "d_x d = (canvasWidth c - d_width d) / 2" by (rule x)
    show "d_y d = (canvasHeight c - d_height d) / 2" by (rule y)
    show "d_width d * l_height l = d_height d * l_width l" unfolding w h by (rule fit(1))
    show "d_width d \<le> canvasWidth c" unfolding w by (rule fit(2))
    show "d_height d \<le> canvasHeight c" unfolding h by (rule fit(3))
    show "d_width d = canvasWidth c \<or> d_height d = canvasHeight c" unfolding w h by (rule fit(4))
    show "d_x d + d_width d + d_x d = canvasWidth c" unfolding x unfolding w by (rule fit(5))
    show "d_y d + d_height d + d_y d = canvasHeight c" unfolding y unfolding h by (rule fit(6))
  qed
qed

text \<open>In the browser-only task manager every rectangle drawn is the whole canvas.\<close>

lemma quick_export_web_stretches:
  assumes "d \<in> set (cv_ops (ex_canvas (handleQuickExportPNG_web p c f evs)))"
  shows "d_x d = 0 \<and> d_y d = 0 \<and> d_width d = canvasWidth c \<and> d_height d = canvasHeight c"
  using assms export_png_ops[of "layer_draw_web c" p c f evs]
  by (auto simp: handleQuickExportPNG_web_def layer_draw_web_def)

lemma ex_run_facts:
  "context2d browser" "visible_sorted (ctx_layers ex_context) \<noteq> []"
  "\<forall>e\<in>set [Loaded 1, Loaded 0]. event_index e < length (visible_sorted (ctx_layers ex_context))"
  "length [Loaded 1, Loaded 0] \<le> length (visible_sorted (ctx_layers ex_context))"
  "mset (map event_index [Loaded 1, Loaded 0])
     = mset [0..<length (visible_sorted (ctx_layers ex_context))]"
  by (simp_all add: browser_def ex_visible upt_rec)

subsection \<open>Claim C6: scaling and centring\<close>

text \<open>
  Claim C6: every layer drawn during compositing is scaled uniformly by the smaller of
  canvas width over layer width and canvas height over layer height, and centred.
  Evaluated: the canvas is 100 by 100 and the visible layers \<open>a\<close> and \<open>c\<close>
  are 100 by 50. Uniform scaling by \<open>min (100/100) (100/50) = 1\<close> and centring gives the
  rectangle at \<open>(0, 25)\<close> of size 100 by 50, and that is what the host-aware task manager
  draws. The browser-only task manager draws both layers at \<open>(0, 0)\<close> with size 100 by
  100: stretched to the canvas, neither scaled uniformly nor offset.
\<close>

theorem quick_export_web_stretches_example:
  "map (\<lambda>d. (l_id (d_layer d), d_x d, d_y d, d_width d, d_height d))
     (cv_ops (ex_canvas (handleQuickExportPNG_web browser ex_context ''quick-export''
                           [Loaded 1, Loaded 0])))
     = [(''c'', 0, 0, 100, 100), (''a'', 0, 0, 100, 100)]
 \<and> map (\<lambda>d. (l_id (d_layer d), d_x d, d_y d, d_width d, d_height d))
     (cv_ops (ex_canvas (handleQuickExportPNG browser ex_context ''canvas-export''
                           [Loaded 1, Loaded 0])))
     = [(''c'', 0, 25, 100, 50), (''a'', 0, 25, 100, 50)]
 \<and> map (\<lambda>l. (l_id l, l_width l, l_height l)) (visible_sorted (ctx_layers ex_context))
     = [(''a'', 100, 50), (''c'', 100, 50)]
 \<and> canvasWidth ex_context = 100 \<and> canvasHeight ex_context = 100"
proof -
  have web: "cv_ops (ex_canvas (handleQuickExportPNG_web browser ex_context ''quick-export''
                           [Loaded 1, Loaded 0]))
           = [layer_draw_web ex_context (ex_layers ! 2), layer_draw_web ex_context (ex_layers ! 0)]"
    unfolding handleQuickExportPNG_web_def export_png_canvas[OF ex_run_facts(1-4)]
    by (simp add: ex_visible)
  have host: "cv_ops (ex_canvas (handleQuickExportPNG browser ex_context ''canvas-export''
                           [Loaded 1, Loaded 0]))
           = [layer_draw ex_context (ex_layers ! 2), layer_draw ex_context (ex_layers ! 0)]"
    unfolding handleQuickExportPNG_def export_png_canvas[OF ex_run_facts(1-4)]
    by (simp add: ex_visible)
  have ls: "map (\<lambda>l. (l_id l, l_width l, l_height l)) (visible_sorted (ctx_layers ex_context))
           = [(''a'', 100, 50), (''c'', 100, 50)]"
    by (simp add: ex_visible ex_layers_def)
  have cv: "canvasWidth ex_context = 100 \<and> canvasHeight ex_context = 100"
    by (simp add: ex_context_def)
  have w: "map (\<lambda>d. (l_id (d_layer d), d_x d, d_y d, d_width d, d_height d))
             [layer_draw_web ex_context (ex_layers ! 2), layer_draw_web ex_context (ex_layers ! 0)]
           = [(''c'', 0, 0, 100, 100), (''a'', 0, 0, 100, 100)]"
    by (simp add: layer_draw_web_def cv ex_layers_def)
  have h: "map (\<lambda>d. (l_id (d_layer d), d_x d, d_y d, d_width d, d_height d))
             [layer_draw ex_context (ex_layers ! 2), layer_draw ex_context (ex_layers ! 0)]
           = [(''c'', 0, 25, 100, 50), (''a'', 0, 25, 100, 50)]"
    by (simp add: layer_draw_def cv ex_layers_def Let_def)
  show ?thesis unfolding web host using ls cv w h by blast
qed

subsection \<open>Claim C1: the order of painting\<close>

text \<open>
  Claim C1: the layers are painted in ascending order of \<open>zIndex\<close>, whatever the order
  in which their decodes complete. Evaluated: the layers have the distinct \<open>zIndex\<close> values 0, 1 and 2; the
  visible ones, sorted, have 0 and 2. When the image of the layer with \<open>zIndex\<close> 2 is
  decoded before the image of the layer with \<open>zIndex\<close> 0, both task managers paint the
  layer with \<open>zIndex\<close> 2 first and the layer with \<open>zIndex\<close> 0 over it: the order of
  painting is the order in which the decodes complete, and the promise resolves.
\<close>

theorem quick_export_paints_in_completion_order:
  "distinct (map zIndex (ctx_layers ex_context))
 \<and> map zIndex (visible_sorted (ctx_layers ex_context)) = [0, 2]
 \<and> map zIndex (painted (handleQuickExportPNG browser ex_context ''canvas-export''
                           [Loaded 1, Loaded 0])) = [2, 0]
 \<and> map zIndex (painted (handleQuickExportPNG_web browser ex_context ''quick-export''
                           [Loaded 1, Loaded 0])) = [2, 0]
 \<and> promise (handleQuickExportPNG browser ex_context ''canvas-export'' [Loaded 1, Loaded 0])
      = Resolved"
proof -
  have 1: "distinct (map zIndex (ctx_layers ex_context))"
    by (simp add: ex_context_def ex_layers_def)
  have 2: "map zIndex (visible_sorted (ctx_layers ex_context)) = [0, 2]"
    by (simp add: ex_visible ex_layers_def)
  have 3: "map zIndex (painted (handleQuickExportPNG browser ex_context ''canvas-export''
                           [Loaded 1, Loaded 0])) = [2, 0]"
    unfolding painted_def handleQuickExportPNG_def export_png_canvas[OF ex_run_facts(1-4)]
    by (simp add: ex_visible layer_draw_layer ex_layers_def)
  have 4: "map zIndex (painted (handleQuickExportPNG_web browser ex_context ''quick-export''
                           [Loaded 1, Loaded 0])) = [2, 0]"
    unfolding painted_def handleQuickExportPNG_web_def export_png_canvas[OF ex_run_facts(1-4)]
    by (simp add: ex_visible layer_draw_web_layer ex_layers_def)
  have r: "\<forall>call. download_returns browser call" by (simp add: browser_def)
  have 5: "promise (handleQuickExportPNG browser ex_context ''canvas-export'' [Loaded 1, Loaded 0])
         = Resolved"
    using export_png_joins(1)[OF ex_run_facts(1,2,5), of "layer_draw ex_context" "''canvas-export''"] r
    by (simp add: handleQuickExportPNG_def)
  show ?thesis using 1 2 3 4 5 by blast
qed

subsection \<open>Claim C4: what a save writes\<close>

lemma handleSave_never_saves_presets:
  "\<forall>eff\<in>set (snd (handleSave p tm filename)). pf_presets (saved_project eff) = []"
proof (cases "isTauri p")
  case False
  then show ?thesis by (simp add: exportProject_def Let_def)
next
  case True
  show ?thesis
  proof (cases "nonempty (currentProjectPath tm)")
    case True
    with \<open>isTauri p\<close> show ?thesis
      by (cases "currentProjectPath tm") (simp_all add: exportProject_def Let_def)
  next
    case False
    then have as: "handleSave p tm filename = handleSaveAs p tm filename"
      using \<open>isTauri p\<close> by (cases "currentProjectPath tm") simp_all
    show ?thesis
    proof (cases "nonempty (save_dialog p)")
      case True
      then obtain path where path: "save_dialog p = Some path" "path \<noteq> []"
        by (cases "save_dialog p") auto
      then show ?thesis using \<open>isTauri p\<close> unfolding as
        by (simp add: exportProject_def Let_def)
    next
      case False
      then show ?thesis using \<open>isTauri p\<close> unfolding as by simp
    qed
  qed
qed

text \<open>
  Claim C4: a save writes the presets that the editor holds, in their on-disk form, into
  the project file. Evaluated: the editor holds one preset, which \<open>exportProject\<close> would write as
  one entry with its \<open>layer_states\<close> and \<open>created_at\<close>. The save action of the page writes
  one project, in the browser and in the native host alike, and the \<open>presets\<close> of that
  project are the empty list: \<open>handleSave\<close> hands \<open>exportProject\<close> the literal \<open>[]\<close>.
\<close>

theorem save_drops_presets_example:
  "ed_presets ex_editor_with_preset = [ex_preset]
 \<and> presets_on_disk browser ex_editor_with_preset
      = [\<lparr>lp_id = ''preset-1'', lp_name = ''Outfit A'',
          layer_states = Some [''a'' \<mapsto> True, ''b'' \<mapsto> False, ''c'' \<mapsto> True],
          created_at = ''2025-01-01T00:00:00.000Z''\<rparr>]
 \<and> map (\<lambda>eff. pf_presets (saved_project eff))
       (snd (page_handleSave browser ex_editor_with_preset ex_task_manager)) = [[]]
 \<and> map (\<lambda>eff. pf_presets (saved_project eff))
       (snd (page_handleSave (browser\<lparr>isTauri := True, save_dialog := Some ''/home/me/p.json''\<rparr>)
               ex_editor_with_preset ex_task_manager)) = [[]]"
  by (simp add: ex_editor_with_preset_def ex_editor_def ex_preset_def presets_on_disk_def
        exportProject_def page_handleSave_def updateContext_def task_context_def
        ex_task_manager_def browser_def Let_def)


end
